theory Spec2Isabelle
  imports Complex_Main
begin

section \<open>Data model\<close>

text \<open>
  A UCL value (\<^verbatim>\<open>UCLValue\<close> in the TypeScript sources) is a string, a number, a boolean,
  null, an array of values or an object. JavaScript numbers are modelled as exact
  rationals: the model and the program agree wherever the program's arithmetic is exact,
  which covers every integer below \<open>2^53\<close>. An object is the list of its own properties in
  insertion order; the members an object inherits from \<^verbatim>\<open>Object.prototype\<close> are not part of
  the model. Values are trees: two paths of a document never share one object.
\<close>

datatype uclvalue =
    VNull
  | VBool bool
  | VNum rat
  | VStr string
  | VArr "uclvalue list"
  | VObj "(string \<times> uclvalue) list"

type_synonym uclobject = "(string \<times> uclvalue) list"

text \<open>
  The four error classes of \<^verbatim>\<open>errors.ts\<close>. A thrown error is its class together with
  its message.
\<close>

datatype error_class = UCLError | UCLSyntaxError | UCLReferenceError | UCLTypeError

type_synonym ucl_error = "error_class \<times> string"

text \<open>
  \<^verbatim>\<open>obj[k] = v\<close> on own properties: a key that is present keeps its place, a new key goes
  to the end. \<^verbatim>\<open>obj[k]\<close> is \<open>map_of obj k\<close>.
\<close>

fun obj_set :: "uclobject \<Rightarrow> string \<Rightarrow> uclvalue \<Rightarrow> uclobject" where
  "obj_set [] k v = [(k, v)]"
| "obj_set ((k', v') # kvs) k v =
     (if k' = k then (k, v) # kvs else (k', v') # obj_set kvs k v)"

text \<open>
  \<^verbatim>\<open>s.split(sep)\<close> for a one-character separator: the result is never empty, and the
  empty string splits into one empty part.
\<close>

fun split_on :: "char \<Rightarrow> string \<Rightarrow> string list" where
  "split_on sep [] = [[]]"
| "split_on sep (c # cs) =
     (if c = sep then [] # split_on sep cs
      else (case split_on sep cs of
              [] \<Rightarrow> [[c]]
            | w # ws \<Rightarrow> (c # w) # ws))"

section \<open>Nested access by dotted path\<close>

text \<open>
  The loop of \<^verbatim>\<open>_getNestedValue\<close>: follow each part as an own key of a non-null,
  non-array object, and throw \<^verbatim>\<open>UCLReferenceError\<close> at the first part that is missing.
\<close>

fun getNestedLoop :: "string \<Rightarrow> uclvalue \<Rightarrow> string list \<Rightarrow> ucl_error + uclvalue" where
  "getNestedLoop path current [] = Inr current"
| "getNestedLoop path current (part # parts) =
     (case current of
        VObj obj \<Rightarrow>
          (case map_of obj part of
             Some resolvedValue \<Rightarrow> getNestedLoop path resolvedValue parts
           | None \<Rightarrow> Inl (UCLReferenceError, ''Path not found: '' @ path))
      | _ \<Rightarrow> Inl (UCLReferenceError, ''Path not found: '' @ path))"

definition getNestedValue :: "uclobject \<Rightarrow> string \<Rightarrow> ucl_error + uclvalue" where
  "getNestedValue config path = getNestedLoop path (VObj config) (split_on CHR ''.'' path)"

text \<open>
  \<^verbatim>\<open>_setNestedValueByPath\<close> walks all parts but the last, replacing whatever is not a
  non-null, non-array object by a fresh \<^verbatim>\<open>{}\<close>, and assigns the last part. The source
  mutates the objects in place; the model rebuilds the spine of the tree.
\<close>

fun setNestedLoop :: "uclobject \<Rightarrow> string list \<Rightarrow> uclvalue \<Rightarrow> uclobject" where
  "setNestedLoop current [] v = current"
| "setNestedLoop current [lastPart] v = obj_set current lastPart v"
| "setNestedLoop current (part # parts) v =
     obj_set current part
       (VObj (setNestedLoop
                (case map_of current part of
                   Some (VObj child) \<Rightarrow> child
                 | _ \<Rightarrow> [])
                parts v))"

definition setNestedValueByPath :: "uclobject \<Rightarrow> string \<Rightarrow> uclvalue \<Rightarrow> uclobject" where
  "setNestedValueByPath config path v = setNestedLoop config (split_on CHR ''.'' path) v"

section \<open>The defaults pass\<close>

text \<open>
  One iteration of the loop of \<^verbatim>\<open>_applyDefaults\<close>: read the path; on a null value, or on
  a \<^verbatim>\<open>UCLReferenceError\<close> from the read, write the default; rethrow any other error.
\<close>

definition applyDefault :: "uclobject \<Rightarrow> string \<times> uclvalue \<Rightarrow> ucl_error + uclobject" where
  "applyDefault config entry =
     (case getNestedValue config (fst entry) of
        Inr currentValue \<Rightarrow>
          (if currentValue = VNull
           then Inr (setNestedValueByPath config (fst entry) (snd entry))
           else Inr config)
      | Inl e \<Rightarrow>
          (if fst e = UCLReferenceError
           then Inr (setNestedValueByPath config (fst entry) (snd entry))
           else Inl e))"

text \<open>
  The whole pass, over the entries of the defaults table in the order in which
  \<^verbatim>\<open>for (const path in this.defaults)\<close> enumerates them.
\<close>

fun applyDefaults :: "uclobject \<Rightarrow> (string \<times> uclvalue) list \<Rightarrow> ucl_error + uclobject" where
  "applyDefaults config [] = Inr config"
| "applyDefaults config (entry # entries) =
     (case applyDefault config entry of
        Inl e \<Rightarrow> Inl e
      | Inr config' \<Rightarrow> applyDefaults config' entries)"

section \<open>Strings and numbers of the host language\<close>

text \<open>
  Strings are lists of 8-bit characters, so the model covers ASCII text. White space is
  the ASCII part of what \<^verbatim>\<open>trim\<close>, \<^verbatim>\<open>\s\<close> and \<^verbatim>\<open>Number\<close> skip.
\<close>

text \<open>The double quote, the single quote, the backslash and the line feed.\<close>

abbreviation (input) DQ :: char where "DQ \<equiv> CHR 0x22"
abbreviation (input) SQ :: char where "SQ \<equiv> CHR 0x27"
abbreviation (input) BSL :: char where "BSL \<equiv> CHR 0x5C"
abbreviation (input) LF :: char where "LF \<equiv> CHR 0x0A"

definition is_ws :: "char \<Rightarrow> bool" where
  "is_ws c = (c \<in> set [CHR '' '', CHR 0x09, CHR 0x0A, CHR 0x0B, CHR 0x0C, CHR 0x0D])"

definition trim :: "string \<Rightarrow> string" where
  "trim s = rev (dropWhile is_ws (rev (dropWhile is_ws s)))"

definition is_digit :: "char \<Rightarrow> bool" where
  "is_digit c = (c \<in> set ''0123456789'')"

definition is_upper :: "char \<Rightarrow> bool" where
  "is_upper c = (c \<in> set ''ABCDEFGHIJKLMNOPQRSTUVWXYZ'')"

definition is_lower :: "char \<Rightarrow> bool" where
  "is_lower c = (c \<in> set ''abcdefghijklmnopqrstuvwxyz'')"

definition lower_char :: "char \<Rightarrow> char" where
  "lower_char c =
     (case map_of (zip ''ABCDEFGHIJKLMNOPQRSTUVWXYZ'' ''abcdefghijklmnopqrstuvwxyz'') c of
        Some l \<Rightarrow> l
      | None \<Rightarrow> c)"

definition toLowerCase :: "string \<Rightarrow> string" where
  "toLowerCase s = map lower_char s"

definition startsWith :: "string \<Rightarrow> string \<Rightarrow> bool" where
  "startsWith s p = (take (length p) s = p)"

definition endsWith :: "string \<Rightarrow> string \<Rightarrow> bool" where
  "endsWith s p = (length p \<le> length s \<and> drop (length s - length p) s = p)"

text \<open>The value of a digit in a base up to 16, and of a digit string.\<close>

definition digit_val :: "char \<Rightarrow> nat" where
  "digit_val c =
     (if is_digit c then of_char c - 48
      else if c \<in> set ''abcdef'' then of_char c - 87
      else if c \<in> set ''ABCDEF'' then of_char c - 55
      else 0)"

definition digits_val :: "nat \<Rightarrow> string \<Rightarrow> nat" where
  "digits_val base ds = foldl (\<lambda>a c. base * a + digit_val c) 0 ds"

definition is_digit_of :: "nat \<Rightarrow> char \<Rightarrow> bool" where
  "is_digit_of base c =
     (if base = 2 then c \<in> set ''01''
      else if base = 8 then c \<in> set ''01234567''
      else if base = 16 then c \<in> set ''0123456789abcdefABCDEF''
      else is_digit c)"

text \<open>
  \<^verbatim>\<open>Number(s)\<close> on a string, following the grammar of ECMAScript's StringToNumber. The
  result \<open>None\<close> stands for \<^verbatim>\<open>NaN\<close> and for the two infinities: the sources always test
  \<^verbatim>\<open>!isNaN(num) && isFinite(num)\<close> together. A literal whose magnitude rounds to
  \<^verbatim>\<open>Infinity\<close> in double precision is not finite either.
\<close>

definition pow10 :: "int \<Rightarrow> rat" where
  "pow10 e = (if 0 \<le> e then 10 ^ nat e else 1 / 10 ^ nat (- e))"

text \<open>The exponent part \<^verbatim>\<open>e[+-]digits\<close>, or nothing; \<open>None\<close> when the text is neither.\<close>

definition exponent_part :: "string \<Rightarrow> int option" where
  "exponent_part s =
     (case s of
        [] \<Rightarrow> Some 0
      | c # r \<Rightarrow>
          (if c = CHR ''e'' \<or> c = CHR ''E'' then
             (case r of
                [] \<Rightarrow> None
              | d # ds \<Rightarrow>
                  (if d = CHR ''+'' then
                     (if ds \<noteq> [] \<and> list_all is_digit ds then Some (int (digits_val 10 ds)) else None)
                   else if d = CHR ''-'' then
                     (if ds \<noteq> [] \<and> list_all is_digit ds then Some (- int (digits_val 10 ds)) else None)
                   else
                     (if list_all is_digit r then Some (int (digits_val 10 r)) else None)))
           else None))"

definition unsigned_decimal :: "string \<Rightarrow> rat option" where
  "unsigned_decimal s =
     (let ip = takeWhile is_digit s;
          r1 = dropWhile is_digit s;
          has_dot = (r1 \<noteq> [] \<and> hd r1 = CHR ''.'');
          fp = (if has_dot then takeWhile is_digit (tl r1) else []);
          r2 = (if has_dot then dropWhile is_digit (tl r1) else r1)
      in if ip = [] \<and> fp = [] then None
         else (case exponent_part r2 of
                 None \<Rightarrow> None
               | Some e \<Rightarrow>
                   Some (of_nat (digits_val 10 (ip @ fp)) * pow10 (e - int (length fp)))))"

definition non_decimal :: "string \<Rightarrow> rat option" where
  "non_decimal s =
     (case s of
        z # x # ds \<Rightarrow>
          (let base = (if x \<in> set ''xX'' then 16 else if x \<in> set ''oO'' then 8
                       else if x \<in> set ''bB'' then 2 else (0::nat))
           in if z = CHR ''0'' \<and> base \<noteq> 0 \<and> ds \<noteq> [] \<and> list_all (is_digit_of base) ds
              then Some (of_nat (digits_val base ds)) else None)
      | _ \<Rightarrow> None)"

definition double_overflow :: rat where
  "double_overflow = 2 ^ 1024 - 2 ^ 970"

definition finite_double :: "rat option \<Rightarrow> rat option" where
  "finite_double r =
     (case r of
        None \<Rightarrow> None
      | Some x \<Rightarrow> (if \<bar>x\<bar> < double_overflow then Some x else None))"

definition Number :: "string \<Rightarrow> rat option" where
  "Number str =
     (let s = trim str in
      if s = [] then Some 0
      else (case non_decimal s of
              Some x \<Rightarrow> finite_double (Some x)
            | None \<Rightarrow>
                (if hd s = CHR ''-'' then finite_double (map_option uminus (unsigned_decimal (tl s)))
                 else if hd s = CHR ''+'' then finite_double (unsigned_decimal (tl s))
                 else finite_double (unsigned_decimal s))))"

text \<open>
  \<^verbatim>\<open>String(n)\<close> on a number. An integral value below \<open>10^21\<close> in magnitude is written with
  its decimal digits and no fraction. The text of any other number depends on its binary
  representation; it is supplied by the host as \<open>Number_toString\<close>.
\<close>

fun nat_string :: "nat \<Rightarrow> string" where
  "nat_string n =
     (if n < 10 then [''0123456789'' ! n]
      else nat_string (n div 10) @ [''0123456789'' ! (n mod 10)])"

declare nat_string.simps [simp del]

definition int_string :: "int \<Rightarrow> string" where
  "int_string i = (if i < 0 then CHR ''-'' # nat_string (nat (- i)) else nat_string (nat i))"

text \<open>
  What the model takes from the host: \<^verbatim>\<open>JSON.parse\<close>, which gives a value or the message
  of the \<^verbatim>\<open>SyntaxError\<close> it throws, and the text of a number that is not a small integer.
\<close>

record host =
  JSON_parse :: "string \<Rightarrow> string + uclvalue"
  Number_toString :: "rat \<Rightarrow> string"

definition number_String :: "host \<Rightarrow> rat \<Rightarrow> string" where
  "number_String h n =
     (if of_int \<lfloor>n\<rfloor> = n \<and> \<bar>n\<bar> < 10 ^ 21 then int_string \<lfloor>n\<rfloor> else Number_toString h n)"

fun join :: "string \<Rightarrow> string list \<Rightarrow> string" where
  "join sep [] = []"
| "join sep [x] = x"
| "join sep (x # y # ys) = x @ sep @ join sep (y # ys)"

text \<open>
  \<^verbatim>\<open>String(v)\<close> on a value: an array is its elements joined by commas, with null
  elements written as the empty string, and an object is \<^verbatim>\<open>[object Object]\<close>.
\<close>

fun String :: "host \<Rightarrow> uclvalue \<Rightarrow> string" where
  "String h VNull = ''null''"
| "String h (VBool b) = (if b then ''true'' else ''false'')"
| "String h (VNum n) = number_String h n"
| "String h (VStr s) = s"
| "String h (VArr xs) = join '','' (map (\<lambda>x. if x = VNull then [] else String h x) xs)"
| "String h (VObj kvs) = ''[object Object]''"

section \<open>Type conversion\<close>

text \<open>
  \<^verbatim>\<open>convertType\<close> of \<^verbatim>\<open>utils/type-converter.ts\<close>, which is word for word the method
  \<^verbatim>\<open>_convertType\<close> of \<^verbatim>\<open>parser.ts\<close>. \<^verbatim>\<open>Math.floor\<close> is \<open>\<lfloor>_\<rfloor>\<close>.
\<close>

definition cannot_convert :: "host \<Rightarrow> uclvalue \<Rightarrow> string \<Rightarrow> ucl_error" where
  "cannot_convert h v target =
     (UCLTypeError, ''Cannot convert '' @ [SQ] @ String h v @ [SQ] @ '' to '' @ target)"

definition convertType :: "host \<Rightarrow> uclvalue \<Rightarrow> string \<Rightarrow> ucl_error + uclvalue" where
  "convertType h v targetType =
     (if targetType = ''int'' then
        (case v of
           VNum n \<Rightarrow> Inr (VNum (of_int \<lfloor>n\<rfloor>))
         | VStr s \<Rightarrow>
             (case Number s of
                Some num \<Rightarrow> Inr (VNum (of_int \<lfloor>num\<rfloor>))
              | None \<Rightarrow> Inl (cannot_convert h v ''int''))
         | VNull \<Rightarrow> Inr (VNum 0)
         | _ \<Rightarrow> Inl (cannot_convert h v ''int''))
      else if targetType = ''float'' then
        (case v of
           VNum n \<Rightarrow> Inr (VNum n)
         | VStr s \<Rightarrow>
             (case Number s of
                Some num \<Rightarrow> Inr (VNum num)
              | None \<Rightarrow> Inl (cannot_convert h v ''float''))
         | VNull \<Rightarrow> Inr (VNum 0)
         | _ \<Rightarrow> Inl (cannot_convert h v ''float''))
      else if targetType = ''string'' then
        (case v of
           VBool b \<Rightarrow> Inr (VStr (toLowerCase (String h (VBool b))))
         | VNull \<Rightarrow> Inr (VStr ''null'')
         | _ \<Rightarrow> Inr (VStr (String h v)))
      else if targetType = ''bool'' then
        (case v of
           VBool b \<Rightarrow> Inr (VBool b)
         | VNum n \<Rightarrow> Inr (VBool (n \<noteq> 0))
         | VStr s \<Rightarrow>
             (let lowerVal = toLowerCase s in
              if lowerVal \<in> set [''true'', ''yes'', ''1''] then Inr (VBool True)
              else if lowerVal \<in> set [''false'', ''no'', ''0''] then Inr (VBool False)
              else Inl (UCLTypeError,
                        ''Cannot convert string '' @ [SQ] @ s @ [SQ] @ '' to bool''))
         | VNull \<Rightarrow> Inr (VBool False)
         | _ \<Rightarrow> Inl (cannot_convert h v ''bool''))
      else Inl (UCLTypeError, ''Unknown target type: '' @ targetType))"

text \<open>Truncation toward zero, as the specification words the \<^verbatim>\<open>int\<close> conversion.\<close>

definition truncate_toward_zero :: "rat \<Rightarrow> int" where
  "truncate_toward_zero n = (if 0 \<le> n then \<lfloor>n\<rfloor> else \<lceil>n\<rceil>)"

text \<open>A host whose two functions are constant, for closed examples.\<close>

definition example_host :: host where
  "example_host = \<lparr>JSON_parse = (\<lambda>s. Inl []), Number_toString = (\<lambda>n. [])\<rparr>"

section \<open>Comment stripping\<close>

text \<open>
  The text after the first \<^verbatim>\<open>*/\<close> of a string, together with the text up to and
  including it; \<open>None\<close> when there is no \<^verbatim>\<open>*/\<close>.
\<close>

fun until_close :: "string \<Rightarrow> (string \<times> string) option" where
  "until_close [] = None"
| "until_close [c] = None"
| "until_close (c # d # cs) =
     (if c = CHR ''*'' \<and> d = CHR ''/'' then Some ([c, d], cs)
      else (case until_close (d # cs) of
              None \<Rightarrow> None
            | Some (body, rest) \<Rightarrow> Some (c # body, rest)))"

lemma until_close_length:
  "until_close cs = Some (body, rest) \<Longrightarrow> length rest < length cs"
  by (induction cs arbitrary: body rest rule: until_close.induct)
     (auto split: if_splits option.splits)

text \<open>
  \<^verbatim>\<open>content.replace(/\/\*.*?\*\//gs, "")\<close>: scanning from the left, each \<^verbatim>\<open>/*\<close> that
  is followed by a \<^verbatim>\<open>*/\<close> is removed up to the first such \<^verbatim>\<open>*/\<close>, line breaks included.
\<close>

function removeBlockComments :: "string \<Rightarrow> string" where
  "removeBlockComments [] = []"
| "removeBlockComments [c] = [c]"
| "removeBlockComments (c # d # cs) =
     (if c = CHR ''/'' \<and> d = CHR ''*'' then
        (case until_close cs of
           Some (body, rest) \<Rightarrow> removeBlockComments rest
         | None \<Rightarrow> c # removeBlockComments (d # cs))
      else c # removeBlockComments (d # cs))"
  by pat_completeness auto
termination
  by (relation "measure length") (auto dest: until_close_length)

text \<open>The block comments that \<open>removeBlockComments\<close> removes, in order.\<close>

function blockComments :: "string \<Rightarrow> string list" where
  "blockComments [] = []"
| "blockComments [c] = []"
| "blockComments (c # d # cs) =
     (if c = CHR ''/'' \<and> d = CHR ''*'' then
        (case until_close cs of
           Some (body, rest) \<Rightarrow> (c # d # body) # blockComments rest
         | None \<Rightarrow> blockComments (d # cs))
      else blockComments (d # cs))"
  by pat_completeness auto
termination
  by (relation "measure length") (auto dest: until_close_length)

text \<open>
  The inner loop of \<^verbatim>\<open>removeComments\<close> on one line: \<open>quoteChar\<close> is \<open>None\<close> outside a
  string, \<open>prev\<close> is the character before the current one, and the result is the line cut
  at the first \<^verbatim>\<open>//\<close> outside a string.
\<close>

fun stripLineComment :: "char option \<Rightarrow> char option \<Rightarrow> string \<Rightarrow> string" where
  "stripLineComment quoteChar prev [] = []"
| "stripLineComment quoteChar prev (c # cs) =
     (if quoteChar = None \<and> (c = DQ \<or> c = SQ)
      then c # stripLineComment (Some c) (Some c) cs
      else if quoteChar = Some c \<and> prev \<noteq> Some BSL
      then c # stripLineComment None (Some c) cs
      else if quoteChar = None \<and> c = CHR ''/'' \<and> cs \<noteq> [] \<and> hd cs = CHR ''/''
      then []
      else c # stripLineComment quoteChar (Some c) cs)"

definition removeComments :: "string \<Rightarrow> string" where
  "removeComments content =
     join [LF] (map (stripLineComment None None) (split_on LF (removeBlockComments content)))"

section \<open>Reference resolution\<close>

text \<open>
  The two loops inside the \<^verbatim>\<open>try\<close> block of \<^verbatim>\<open>resolveSimpleReference\<close>: follow each
  part as an own key of a non-null, non-array object. \<open>None\<close> is the plain \<^verbatim>\<open>Error\<close>
  the loops throw, which the surrounding \<^verbatim>\<open>catch\<close> swallows.
\<close>

fun relativeWalk :: "uclvalue \<Rightarrow> string list \<Rightarrow> uclvalue option" where
  "relativeWalk tempCurrent [] = Some tempCurrent"
| "relativeWalk tempCurrent (part # parts) =
     (case tempCurrent of
        VObj obj \<Rightarrow>
          (case map_of obj part of
             Some nextValue \<Rightarrow> relativeWalk nextValue parts
           | None \<Rightarrow> None)
      | _ \<Rightarrow> None)"

text \<open>
  What happens when the absolute walk fails at a part: with a non-empty section, walk the
  section's parts and then all parts of the reference from the root; if that fails too,
  or the section is empty, throw \<^verbatim>\<open>UCLReferenceError\<close>.
\<close>

definition relativeFallback ::
  "string \<Rightarrow> uclobject \<Rightarrow> string list \<Rightarrow> string list \<Rightarrow> ucl_error + uclvalue" where
  "relativeFallback ref config currentSection parts =
     (if currentSection \<noteq> [] then
        (case relativeWalk (VObj config) currentSection of
           None \<Rightarrow> Inl (UCLReferenceError, ''Cannot resolve reference: '' @ ref)
         | Some tempCurrent \<Rightarrow>
             (case relativeWalk tempCurrent parts of
                None \<Rightarrow> Inl (UCLReferenceError, ''Cannot resolve reference: '' @ ref)
              | Some resolved \<Rightarrow> Inr resolved))
      else Inl (UCLReferenceError, ''Cannot resolve reference: '' @ ref))"

text \<open>The outer loop of \<^verbatim>\<open>resolveSimpleReference\<close> over the parts still to follow.\<close>

fun resolveSimpleLoop ::
  "string \<Rightarrow> uclobject \<Rightarrow> string list \<Rightarrow> string list \<Rightarrow> uclvalue \<Rightarrow> string list
   \<Rightarrow> ucl_error + uclvalue" where
  "resolveSimpleLoop ref config currentSection parts current [] = Inr current"
| "resolveSimpleLoop ref config currentSection parts current (part # rest) =
     (case current of
        VObj obj \<Rightarrow>
          (case map_of obj part of
             Some resolvedValue \<Rightarrow>
               resolveSimpleLoop ref config currentSection parts resolvedValue rest
           | None \<Rightarrow> relativeFallback ref config currentSection parts)
      | _ \<Rightarrow> relativeFallback ref config currentSection parts)"

text \<open>
  \<^verbatim>\<open>resolveSimpleReference\<close> of \<^verbatim>\<open>utils/reference-resolver.ts\<close>; the bracket-free branch
  of \<^verbatim>\<open>_resolveReference\<close> in \<^verbatim>\<open>parser.ts\<close> is the same code.
\<close>

definition resolveSimpleReference ::
  "string \<Rightarrow> uclobject \<Rightarrow> string list \<Rightarrow> ucl_error + uclvalue" where
  "resolveSimpleReference ref config currentSection =
     resolveSimpleLoop ref config currentSection (split_on CHR ''.'' ref) (VObj config)
       (split_on CHR ''.'' ref)"



section \<open>Lexical helpers of the value parser\<close>

text \<open>
  \<^verbatim>\<open>s.substring(a, b)\<close>: both indices are clamped to the length of the string and swapped
  when the first exceeds the second. A negative index is clamped to 0, as the truncated
  subtraction of natural numbers does for \<^verbatim>\<open>s.length - 1\<close>.
\<close>

definition substring :: "string \<Rightarrow> nat \<Rightarrow> nat \<Rightarrow> string" where
  "substring s a b =
     (let a' = min a (length s); b' = min b (length s)
      in take (max a' b' - min a' b') (drop (min a' b') s))"

text \<open>
  Whether the text starts and ends with the same quote character, double or single.
\<close>

definition isQuoted :: "string \<Rightarrow> bool" where
  "isQuoted s =
     ((startsWith s [DQ] \<and> endsWith s [DQ]) \<or> (startsWith s [SQ] \<and> endsWith s [SQ]))"

text \<open>
  The loop of \<^verbatim>\<open>containsOperators\<close> (\<^verbatim>\<open>utils/expression-evaluator.ts\<close>, and the method
  \<^verbatim>\<open>_containsOperators\<close> of \<^verbatim>\<open>parser.ts\<close>): is there an operator character outside quoted
  spans?
\<close>

fun containsOperatorsLoop :: "char option \<Rightarrow> char option \<Rightarrow> string \<Rightarrow> bool" where
  "containsOperatorsLoop quoteChar prev [] = False"
| "containsOperatorsLoop quoteChar prev (c # cs) =
     (if quoteChar = None \<and> (c = DQ \<or> c = SQ)
      then containsOperatorsLoop (Some c) (Some c) cs
      else if quoteChar = Some c \<and> prev \<noteq> Some BSL
      then containsOperatorsLoop None (Some c) cs
      else if quoteChar = None \<and> c \<in> set ''+-*/%''
      then True
      else containsOperatorsLoop quoteChar (Some c) cs)"

definition containsOperators :: "string \<Rightarrow> bool" where
  "containsOperators valueStr = containsOperatorsLoop None None valueStr"

text \<open>The pattern \<^verbatim>\<open>/^-?\d+(\.\d+)?$/\<close>.\<close>

definition numericPattern :: "string \<Rightarrow> bool" where
  "numericPattern s =
     (let u = (case s of [] \<Rightarrow> [] | c # cs \<Rightarrow> if c = CHR ''-'' then cs else s);
          ip = takeWhile is_digit u;
          r = dropWhile is_digit u
      in ip \<noteq> [] \<and>
         (r = [] \<or> (hd r = CHR ''.'' \<and> tl r \<noteq> [] \<and> list_all is_digit (tl r))))"

text \<open>
  The pattern \<^verbatim>\<open>/^\$ENV\{([^}]+)\}$/\<close>; the result is the captured variable name.
\<close>

definition envMatch :: "string \<Rightarrow> string option" where
  "envMatch s =
     (let name = butlast (drop 5 s)
      in if startsWith s ''$ENV{'' \<and> endsWith s ''}'' \<and> 7 \<le> length s \<and>
            CHR ''}'' \<notin> set name
         then Some name else None)"

text \<open>
  The pattern of \<^verbatim>\<open>isVariableReference\<close>: an identifier, further identifiers after dots,
  then accessors in brackets, each a quoted text or digits with white space around. The
  pattern has no choice points, so a matcher that reads the text once decides it.
\<close>

definition ident_start :: "char \<Rightarrow> bool" where
  "ident_start c = (is_lower c \<or> is_upper c \<or> c = CHR ''_'' \<or> c = CHR ''$'')"

definition ident_char :: "char \<Rightarrow> bool" where
  "ident_char c = (ident_start c \<or> is_digit c)"

datatype ref_state =
  RStart | RIdent | RDot | ROpen | RSingle | RDouble | RDigits | RItem | RClose

fun referenceMatch :: "ref_state \<Rightarrow> string \<Rightarrow> bool" where
  "referenceMatch st [] = (st = RIdent \<or> st = RClose)"
| "referenceMatch RStart (c # cs) = (ident_start c \<and> referenceMatch RIdent cs)"
| "referenceMatch RIdent (c # cs) =
     (if ident_char c then referenceMatch RIdent cs
      else if c = CHR ''.'' then referenceMatch RDot cs
      else if c = CHR ''['' then referenceMatch ROpen cs
      else False)"
| "referenceMatch RDot (c # cs) = (ident_start c \<and> referenceMatch RIdent cs)"
| "referenceMatch ROpen (c # cs) =
     (if is_ws c then referenceMatch ROpen cs
      else if c = SQ then referenceMatch RSingle cs
      else if c = DQ then referenceMatch RDouble cs
      else if is_digit c then referenceMatch RDigits cs
      else False)"
| "referenceMatch RSingle (c # cs) =
     (if c = SQ then referenceMatch RItem cs else referenceMatch RSingle cs)"
| "referenceMatch RDouble (c # cs) =
     (if c = DQ then referenceMatch RItem cs else referenceMatch RDouble cs)"
| "referenceMatch RDigits (c # cs) =
     (if is_digit c then referenceMatch RDigits cs
      else if is_ws c then referenceMatch RItem cs
      else if c = CHR '']'' then referenceMatch RClose cs
      else False)"
| "referenceMatch RItem (c # cs) =
     (if is_ws c then referenceMatch RItem cs
      else if c = CHR '']'' then referenceMatch RClose cs
      else False)"
| "referenceMatch RClose (c # cs) = (c = CHR ''['' \<and> referenceMatch ROpen cs)"

definition referencePattern :: "string \<Rightarrow> bool" where
  "referencePattern s = referenceMatch RStart s"

text \<open>
  \<^verbatim>\<open>parseString\<close> of \<^verbatim>\<open>utils/string-parser.ts\<close> (\<^verbatim>\<open>_parseString\<close> in \<^verbatim>\<open>parser.ts\<close>):
  a backslash followed by \<^verbatim>\<open>n\<close>, \<^verbatim>\<open>t\<close>, \<^verbatim>\<open>r\<close>, a backslash or a quote is replaced by
  the character it stands for; any other backslash is kept.
\<close>

definition escapeSequences :: "(char \<times> char) list" where
  "escapeSequences =
     [(CHR ''n'', LF), (CHR ''t'', CHR 0x09), (CHR ''r'', CHR 0x0D),
      (BSL, BSL), (DQ, DQ), (SQ, SQ)]"

fun parseString :: "string \<Rightarrow> string" where
  "parseString [] = []"
| "parseString [c] = [c]"
| "parseString (c # nextChar # cs) =
     (if c = BSL then
        (case map_of escapeSequences nextChar of
           Some r \<Rightarrow> r # parseString cs
         | None \<Rightarrow> c # parseString (nextChar # cs))
      else c # parseString (nextChar # cs))"

section \<open>The parser object\<close>

text \<open>
  The fields of a \<^verbatim>\<open>UCLParser\<close> that evaluation reads and writes. The defaults table is
  an object like the document, with its keys in the order of their first assignment. The method
  \<^verbatim>\<open>_resolveComplexReference\<close>, which resolves references with bracketed accessors, is
  not modelled: it is a field of the record, so that what is proved holds whatever it
  does.
\<close>

record parser =
  config :: uclobject
  currentSection :: "string list"
  defaults :: "(string \<times> uclvalue) list"
  envVars :: "string \<Rightarrow> string option"
  resolveComplexReference :: "string \<Rightarrow> uclobject \<Rightarrow> string list \<Rightarrow> ucl_error + uclvalue"

text \<open>
  A call that may not return has an optional result: \<open>None\<close> when the evaluation does not
  finish within the given number of nested calls and loop rounds.
\<close>

type_synonym 'a result = "(ucl_error + 'a) option"

section \<open>Simple literals\<close>

text \<open>\<^verbatim>\<open>_isSimpleLiteral\<close> of \<^verbatim>\<open>parser.ts\<close>.\<close>

definition isSimpleLiteral :: "host \<Rightarrow> string \<Rightarrow> bool" where
  "isSimpleLiteral h valueStr =
     (let v = trim valueStr in
      if isQuoted v then \<not> containsOperators v
      else if (startsWith v ''['' \<and> endsWith v '']'') \<or> (startsWith v ''{'' \<and> endsWith v ''}'')
      then (case JSON_parse h v of Inr parsed \<Rightarrow> True | Inl msg \<Rightarrow> False)
      else if toLowerCase v \<in> set [''true'', ''false'', ''null''] then True
      else if numericPattern v then Number v \<noteq> None
      else False)"

text \<open>\<^verbatim>\<open>_isVariableReference\<close> of \<^verbatim>\<open>parser.ts\<close>.\<close>

definition isVariableReference :: "host \<Rightarrow> string \<Rightarrow> bool" where
  "isVariableReference h valueStr =
     (if isSimpleLiteral h valueStr then False else referencePattern valueStr)"

text \<open>
  \<^verbatim>\<open>content.replace(/\s*\n\s*/g, " ")\<close>: every run of white space that holds a line feed
  becomes one space.
\<close>

function collapseNewlines :: "string \<Rightarrow> string" where
  "collapseNewlines [] = []"
| "collapseNewlines (c # cs) =
     (if is_ws c then
        (if LF \<in> set (takeWhile is_ws (c # cs))
         then CHR '' '' # collapseNewlines (dropWhile is_ws cs)
         else takeWhile is_ws (c # cs) @ collapseNewlines (dropWhile is_ws cs))
      else c # collapseNewlines cs)"
  by pat_completeness auto
termination
  by (relation "measure length") (auto simp: less_Suc_eq_le length_dropWhile_le)

text \<open>
  The loop of \<^verbatim>\<open>parseArray\<close> that cuts the array's content at the commas outside
  strings, brackets and braces. The result lists the text of \<^verbatim>\<open>currentElement\<close> at each
  comma and at the end.
\<close>

fun splitArrayLoop ::
  "string \<Rightarrow> int \<Rightarrow> int \<Rightarrow> char option \<Rightarrow> char option \<Rightarrow> string \<Rightarrow> string list" where
  "splitArrayLoop currentElement bracketCount braceCount quoteChar prev [] = [currentElement]"
| "splitArrayLoop currentElement bracketCount braceCount quoteChar prev (c # cs) =
     (if quoteChar = None \<and> (c = DQ \<or> c = SQ) then
        splitArrayLoop (currentElement @ [c]) bracketCount braceCount (Some c) (Some c) cs
      else if quoteChar = Some c then
        (if prev = Some BSL
         then splitArrayLoop (currentElement @ [c]) bracketCount braceCount quoteChar (Some c) cs
         else splitArrayLoop (currentElement @ [c]) bracketCount braceCount None (Some c) cs)
      else if quoteChar = None then
        (if c = CHR ''['' then
           splitArrayLoop (currentElement @ [c]) (bracketCount + 1) braceCount quoteChar (Some c) cs
         else if c = CHR '']'' then
           splitArrayLoop (currentElement @ [c]) (bracketCount - 1) braceCount quoteChar (Some c) cs
         else if c = CHR ''{'' then
           splitArrayLoop (currentElement @ [c]) bracketCount (braceCount + 1) quoteChar (Some c) cs
         else if c = CHR ''}'' then
           splitArrayLoop (currentElement @ [c]) bracketCount (braceCount - 1) quoteChar (Some c) cs
         else if c = CHR '','' \<and> bracketCount = 0 \<and> braceCount = 0 then
           currentElement # splitArrayLoop [] bracketCount braceCount quoteChar (Some c) cs
         else splitArrayLoop (currentElement @ [c]) bracketCount braceCount quoteChar (Some c) cs)
      else splitArrayLoop (currentElement @ [c]) bracketCount braceCount quoteChar (Some c) cs)"

text \<open>
  The elements are parsed in order by the callback \<open>pv\<close> (\<^verbatim>\<open>this._parseValue\<close>); the
  first error, or the first call that does not return, ends the parse.
\<close>

fun parseElements :: "(string \<Rightarrow> uclvalue result) \<Rightarrow> string list \<Rightarrow> uclvalue list result" where
  "parseElements pv [] = Some (Inr [])"
| "parseElements pv (e # es) =
     (case pv e of
        None \<Rightarrow> None
      | Some (Inl err) \<Rightarrow> Some (Inl err)
      | Some (Inr v) \<Rightarrow>
          (case parseElements pv es of
             None \<Rightarrow> None
           | Some (Inl err) \<Rightarrow> Some (Inl err)
           | Some (Inr vs) \<Rightarrow> Some (Inr (v # vs))))"

text \<open>
  \<^verbatim>\<open>parseArray\<close>. The source parses each element when the loop reaches its comma;
  parsing changes no state, so cutting first and parsing afterwards gives the same result.
\<close>

definition parseArray :: "(string \<Rightarrow> uclvalue result) \<Rightarrow> string \<Rightarrow> uclvalue result" where
  "parseArray pv arrayStr =
     (let content = trim (substring arrayStr 1 (length arrayStr - 1)) in
      if content = [] then Some (Inr (VArr []))
      else (case parseElements pv
                   (filter (\<lambda>e. e \<noteq> [])
                      (map trim (splitArrayLoop [] 0 0 None None (collapseNewlines content)))) of
              None \<Rightarrow> None
            | Some (Inl err) \<Rightarrow> Some (Inl err)
            | Some (Inr elements) \<Rightarrow> Some (Inr (VArr elements))))"

text \<open>
  \<^verbatim>\<open>parseSimpleValue\<close> of \<^verbatim>\<open>value-parser.ts\<close>, with its callback; the method
  \<^verbatim>\<open>_parseSimpleValue\<close> of \<^verbatim>\<open>parser.ts\<close> is the same code with \<^verbatim>\<open>this._parseValue\<close> as the
  callback.
\<close>

definition parseSimpleValue ::
  "(string \<Rightarrow> uclvalue result) \<Rightarrow> host \<Rightarrow> string \<Rightarrow> uclvalue result" where
  "parseSimpleValue pv h valueStr =
     (let v = trim valueStr in
      if toLowerCase v = ''null'' then Some (Inr VNull)
      else if toLowerCase v \<in> set [''true'', ''false'']
      then Some (Inr (VBool (toLowerCase v = ''true'')))
      else if isQuoted v
      then Some (Inr (VStr (parseString (substring v 1 (length v - 1)))))
      else if startsWith v ''['' \<and> endsWith v '']'' then parseArray pv v
      else if startsWith v ''{'' \<and> endsWith v ''}'' then
        (case JSON_parse h v of
           Inr parsed \<Rightarrow> Some (Inr parsed)
         | Inl msg \<Rightarrow>
             Some (Inl (UCLSyntaxError,
                        ''Invalid JSON object: '' @ msg @ '' in '' @ [SQ] @ v @ [SQ])))
      else (case Number v of
              Some num \<Rightarrow> Some (Inr (VNum num))
            | None \<Rightarrow> Some (Inr (VStr v))))"

section \<open>The expression evaluator\<close>

text \<open>
  The loop of \<^verbatim>\<open>tokenizeExpression\<close>: \<open>currentToken\<close> is the token being built,
  \<open>quoteChar\<close> the open quote if any, \<open>prev\<close> the previous character.
\<close>

fun tokenizeLoop :: "string \<Rightarrow> char option \<Rightarrow> char option \<Rightarrow> string \<Rightarrow> string list" where
  "tokenizeLoop currentToken quoteChar prev [] =
     (if trim currentToken \<noteq> [] then [trim currentToken] else [])"
| "tokenizeLoop currentToken quoteChar prev (c # cs) =
     (if quoteChar = None \<and> (c = DQ \<or> c = SQ) then
        (if trim currentToken \<noteq> [] then [trim currentToken] else [])
          @ tokenizeLoop [c] (Some c) (Some c) cs
      else if quoteChar = Some c then
        (if prev = Some BSL
         then tokenizeLoop (currentToken @ [c]) quoteChar (Some c) cs
         else (currentToken @ [c]) # tokenizeLoop [] None (Some c) cs)
      else if quoteChar \<noteq> None then
        tokenizeLoop (currentToken @ [c]) quoteChar (Some c) cs
      else if c \<in> set ''+-*/%()'' then
        (if trim currentToken \<noteq> [] then [trim currentToken] else [])
          @ [c] # tokenizeLoop [] None (Some c) cs
      else if is_ws c then
        (if trim currentToken \<noteq> []
         then trim currentToken # tokenizeLoop [] None (Some c) cs
         else tokenizeLoop currentToken None (Some c) cs)
      else tokenizeLoop (currentToken @ [c]) None (Some c) cs)"

definition tokenizeExpression :: "string \<Rightarrow> string list" where
  "tokenizeExpression expr = tokenizeLoop [] None None expr"

definition isOperator :: "string \<Rightarrow> bool" where
  "isOperator token = (token \<in> set [''+'', ''-'', ''*'', ''/'', ''%''])"

text \<open>\<^verbatim>\<open>toNumber\<close>: a number, a string that \<^verbatim>\<open>Number\<close> reads as finite, or null as 0.\<close>

definition toNumber :: "host \<Rightarrow> uclvalue \<Rightarrow> ucl_error + rat" where
  "toNumber h v =
     (case v of
        VNum n \<Rightarrow> Inr n
      | VStr s \<Rightarrow>
          (case Number s of
             Some num \<Rightarrow> Inr num
           | None \<Rightarrow> Inl (cannot_convert h v ''number''))
      | VNull \<Rightarrow> Inr 0
      | _ \<Rightarrow> Inl (cannot_convert h v ''number''))"

text \<open>
  The first pass of \<^verbatim>\<open>_evaluateSimpleExpression\<close>: an operator token stays as the
  string it is, every other token is resolved by \<open>ro\<close> (\<^verbatim>\<open>this._resolveOperand\<close>).
\<close>

fun resolveTokens :: "(string \<Rightarrow> uclvalue result) \<Rightarrow> string list \<Rightarrow> uclvalue list result" where
  "resolveTokens ro [] = Some (Inr [])"
| "resolveTokens ro (rawToken # rawTokens) =
     (case (if isOperator rawToken then Some (Inr (VStr rawToken)) else ro rawToken) of
        None \<Rightarrow> None
      | Some (Inl err) \<Rightarrow> Some (Inl err)
      | Some (Inr v) \<Rightarrow>
          (case resolveTokens ro rawTokens of
             None \<Rightarrow> None
           | Some (Inl err) \<Rightarrow> Some (Inl err)
           | Some (Inr vs) \<Rightarrow> Some (Inr (v # vs))))"

text \<open>
  \<^verbatim>\<open>left % right\<close> on numbers: the remainder has the sign of the dividend.
\<close>

definition js_rem :: "rat \<Rightarrow> rat \<Rightarrow> rat" where
  "js_rem a b = a - b * of_int (truncate_toward_zero (a / b))"

text \<open>
  The second pass, over the tokens not yet read. \<open>processed\<close> is \<^verbatim>\<open>processedTokens\<close> in
  reverse, so that its head is what \<^verbatim>\<open>pop()\<close> returns; the result is in source order.
\<close>

fun mulDivPass :: "host \<Rightarrow> uclvalue list \<Rightarrow> uclvalue list \<Rightarrow> ucl_error + uclvalue list" where
  "mulDivPass h processed [] = Inr (rev processed)"
| "mulDivPass h processed (token # rest) =
     (if token = VStr ''*'' \<or> token = VStr ''/'' \<or> token = VStr ''%'' then
        (case processed of
           [] \<Rightarrow>
             Inl (UCLSyntaxError,
                  ''Missing left operand for operator '' @ [SQ] @ String h token @ [SQ])
         | leftToken # processed' \<Rightarrow>
             (case toNumber h leftToken of
                Inl err \<Rightarrow> Inl err
              | Inr left \<Rightarrow>
                  (case rest of
                     [] \<Rightarrow>
                       Inl (UCLSyntaxError,
                            ''Missing right operand for operator '' @ [SQ] @ String h token @ [SQ])
                   | rightToken # rest' \<Rightarrow>
                       (case toNumber h rightToken of
                          Inl err \<Rightarrow> Inl err
                        | Inr right \<Rightarrow>
                            (if token = VStr ''*'' then
                               mulDivPass h (VNum (left * right) # processed') rest'
                             else if token = VStr ''/'' then
                               (if right = 0 then Inl (UCLTypeError, ''Division by zero'')
                                else mulDivPass h (VNum (left / right) # processed') rest')
                             else
                               (if right = 0 then Inl (UCLTypeError, ''Modulo by zero'')
                                else mulDivPass h (VNum (js_rem left right) # processed') rest'))))))
      else mulDivPass h (token # processed) rest)"

text \<open>
  \<^verbatim>\<open>String(x)\<close> and \<^verbatim>\<open>typeof x === "string"\<close> on an operand that may be
  \<^verbatim>\<open>undefined\<close> (\<open>None\<close>): popped from an empty array, or read past the end.
\<close>

definition String_opt :: "host \<Rightarrow> uclvalue option \<Rightarrow> string" where
  "String_opt h x = (case x of None \<Rightarrow> ''undefined'' | Some v \<Rightarrow> String h v)"

definition is_string :: "uclvalue option \<Rightarrow> bool" where
  "is_string x = (case x of Some (VStr s) \<Rightarrow> True | _ \<Rightarrow> False)"

text \<open>The result of one \<^verbatim>\<open>+\<close> or \<^verbatim>\<open>-\<close> of the third pass.\<close>

definition addSub ::
  "host \<Rightarrow> uclvalue \<Rightarrow> uclvalue option \<Rightarrow> uclvalue option \<Rightarrow> ucl_error + uclvalue" where
  "addSub h token left right =
     (if token = VStr ''+'' then
        (if is_string left \<or> is_string right
         then Inr (VStr (String_opt h left @ String_opt h right))
         else (case (left, right) of
                 (Some l, Some r) \<Rightarrow>
                   (case toNumber h l of
                      Inl err \<Rightarrow> Inl err
                    | Inr a \<Rightarrow>
                        (case toNumber h r of
                           Inl err \<Rightarrow> Inl err
                         | Inr b \<Rightarrow> Inr (VNum (a + b))))
               | _ \<Rightarrow> Inl (UCLTypeError, ''Operand is undefined in addition'')))
      else
        (case (left, right) of
           (Some l, Some r) \<Rightarrow>
             (case toNumber h l of
                Inl err \<Rightarrow> Inl err
              | Inr a \<Rightarrow>
                  (case toNumber h r of
                     Inl err \<Rightarrow> Inl err
                   | Inr b \<Rightarrow> Inr (VNum (a - b))))
         | _ \<Rightarrow> Inl (UCLTypeError, ''Operand is undefined in subtraction'')))"

text \<open>The third pass, with \<open>processed\<close> in reverse as in the second.\<close>

fun addSubPass :: "host \<Rightarrow> uclvalue list \<Rightarrow> uclvalue list \<Rightarrow> ucl_error + uclvalue list" where
  "addSubPass h processed [] = Inr (rev processed)"
| "addSubPass h processed (token # rest) =
     (if token = VStr ''+'' \<or> token = VStr ''-'' then
        (case addSub h token
                (case processed of [] \<Rightarrow> None | left # processed' \<Rightarrow> Some left)
                (case rest of [] \<Rightarrow> None | right # rest' \<Rightarrow> Some right) of
           Inl err \<Rightarrow> Inl err
         | Inr res \<Rightarrow> addSubPass h (res # tl processed) (tl rest))
      else addSubPass h (token # processed) rest)"

text \<open>
  \<^verbatim>\<open>_evaluateSimpleExpression\<close>: tokenize, resolve the operands, run the two passes, and
  return the first remaining token, or null when none remains.
\<close>

definition evaluateSimpleExpression ::
  "(string \<Rightarrow> uclvalue result) \<Rightarrow> host \<Rightarrow> string \<Rightarrow> uclvalue result" where
  "evaluateSimpleExpression ro h expr =
     (case resolveTokens ro (tokenizeExpression expr) of
        None \<Rightarrow> None
      | Some (Inl err) \<Rightarrow> Some (Inl err)
      | Some (Inr evaluatedTokens) \<Rightarrow>
          (case mulDivPass h [] evaluatedTokens of
             Inl err \<Rightarrow> Some (Inl err)
           | Inr afterMulDiv \<Rightarrow>
               (case addSubPass h [] afterMulDiv of
                  Inl err \<Rightarrow> Some (Inl err)
                | Inr final \<Rightarrow>
                    Some (Inr (case final of [] \<Rightarrow> VNull | first # others \<Rightarrow> first)))))"

text \<open>
  The inner \<^verbatim>\<open>for\<close> loop of \<^verbatim>\<open>_evaluateExpression\<close>, from index \<open>i\<close> on: the index of
  the parenthesis that brings \<open>openCount\<close> back to 0.
\<close>

fun findClose :: "int \<Rightarrow> nat \<Rightarrow> string \<Rightarrow> nat option" where
  "findClose openCount i [] = None"
| "findClose openCount i (c # cs) =
     (let openCount' = (if c = CHR ''('' then openCount + 1
                        else if c = CHR '')'' then openCount - 1 else openCount)
      in if openCount' = 0 \<and> c = CHR '')'' then Some i
         else findClose openCount' (Suc i) cs)"

text \<open>\<^verbatim>\<open>expr.lastIndexOf("(")\<close>, for a text that holds the character.\<close>

definition lastIndexOf :: "string \<Rightarrow> char \<Rightarrow> nat" where
  "lastIndexOf s c = length s - Suc (length (takeWhile (\<lambda>x. x \<noteq> c) (rev s)))"

text \<open>
  \<^verbatim>\<open>_evaluateExpression\<close>. The \<^verbatim>\<open>while\<close> loop replaces the span of the last opening
  parenthesis by the text of its value, and may go on for ever (the text of a string value
  may hold parentheses again); the first argument bounds its rounds. \<open>es\<close> is
  \<^verbatim>\<open>this._evaluateSimpleExpression\<close>.
\<close>

fun evaluateExpression ::
  "nat \<Rightarrow> (string \<Rightarrow> uclvalue result) \<Rightarrow> host \<Rightarrow> string \<Rightarrow> uclvalue result" where
  "evaluateExpression 0 es h expr = None"
| "evaluateExpression (Suc n) es h expr =
     (if CHR ''('' \<in> set expr then
        (let start = lastIndexOf expr CHR ''('' in
         case findClose 0 start (drop start expr) of
           None \<Rightarrow>
             Some (Inl (UCLSyntaxError, ''Mismatched parentheses in expression: '' @ expr))
         | Some end \<Rightarrow>
             (case es (substring expr (start + 1) end) of
                None \<Rightarrow> None
              | Some (Inl err) \<Rightarrow> Some (Inl err)
              | Some (Inr res) \<Rightarrow>
                  evaluateExpression n es h
                    (substring expr 0 start @ String h res @ drop (end + 1) expr)))
      else es expr)"

section \<open>Operands, references and values\<close>

text \<open>\<^verbatim>\<open>_resolveReference\<close>: a reference with a bracket is a complex one.\<close>

definition resolveReference :: "parser \<Rightarrow> string \<Rightarrow> ucl_error + uclvalue" where
  "resolveReference this ref =
     (if CHR ''['' \<in> set ref \<or> CHR '']'' \<in> set ref
      then resolveComplexReference this ref (config this) (currentSection this)
      else resolveSimpleReference ref (config this) (currentSection this))"

text \<open>\<^verbatim>\<open>this.envVars[envVar] ?? null\<close>.\<close>

definition envLookup :: "parser \<Rightarrow> string \<Rightarrow> uclvalue" where
  "envLookup this envVar = (case envVars this envVar of None \<Rightarrow> VNull | Some s \<Rightarrow> VStr s)"

text \<open>\<^verbatim>\<open>_resolveOperand\<close> of \<^verbatim>\<open>parser.ts\<close>.\<close>

definition resolveOperand ::
  "(string \<Rightarrow> uclvalue result) \<Rightarrow> host \<Rightarrow> parser \<Rightarrow> string \<Rightarrow> uclvalue result" where
  "resolveOperand pv h this operandStr =
     (let s = trim operandStr in
      if s = [] then Some (Inr VNull)
      else if isQuoted s then Some (Inr (VStr (parseString (substring s 1 (length s - 1)))))
      else (case envMatch s of
              Some envVar \<Rightarrow> Some (Inr (envLookup this envVar))
            | None \<Rightarrow>
                (if isVariableReference h s then Some (resolveReference this s)
                 else parseSimpleValue pv h s)))"

text \<open>
  The body of \<^verbatim>\<open>_parseValue\<close> of \<^verbatim>\<open>parser.ts\<close>, with the recursive calls of
  \<^verbatim>\<open>this._parseValue\<close> as \<open>pv\<close> and \<open>n\<close> rounds for the loop of \<^verbatim>\<open>_evaluateExpression\<close>.
\<close>

definition parseValueBody ::
  "nat \<Rightarrow> (string \<Rightarrow> uclvalue result) \<Rightarrow> host \<Rightarrow> parser \<Rightarrow> string \<Rightarrow> uclvalue result" where
  "parseValueBody n pv h this valueStr0 =
     (let valueStr = trim valueStr0;
          parts = split_on CHR ''.'' valueStr;
          typeSuffix = last parts;
          baseValueStr = join ''.'' (butlast parts)
      in
      if valueStr = [] then Some (Inr VNull)
      else (case envMatch valueStr of
        Some envVar \<Rightarrow> Some (Inr (envLookup this envVar))
      | None \<Rightarrow>
          (if CHR ''.'' \<in> set valueStr \<and> \<not> isSimpleLiteral h valueStr \<and>
              toLowerCase typeSuffix \<in> set [''int'', ''float'', ''string'', ''bool'']
           then
             (case pv baseValueStr of
                None \<Rightarrow> None
              | Some (Inl err) \<Rightarrow> Some (Inl err)
              | Some (Inr baseValue) \<Rightarrow> Some (convertType h baseValue (toLowerCase typeSuffix)))
           else if containsOperators valueStr \<and> \<not> isSimpleLiteral h valueStr then
             evaluateExpression n (evaluateSimpleExpression (resolveOperand pv h this) h) h valueStr
           else if \<not> isSimpleLiteral h valueStr \<and> isVariableReference h valueStr then
             Some (resolveReference this valueStr)
           else parseSimpleValue pv h valueStr)))"

text \<open>
  \<^verbatim>\<open>_parseValue\<close>: the first argument bounds the depth of the nested calls and the
  rounds of the parenthesis loop; \<open>None\<close> means that the bound was not enough.
\<close>

fun parseValue :: "nat \<Rightarrow> host \<Rightarrow> parser \<Rightarrow> string \<Rightarrow> uclvalue result" where
  "parseValue 0 h this valueStr = None"
| "parseValue (Suc n) h this valueStr =
     parseValueBody n (\<lambda>v. parseValue n h this v) h this valueStr"

section \<open>The second implementation: \<^verbatim>\<open>ucl-parser.ts\<close> and its utilities\<close>

text \<open>
  \<^verbatim>\<open>_containsOperators\<close> of \<^verbatim>\<open>value-parser.ts\<close>: does the text between the first and the
  last character hold one of the listed operator characters?
\<close>

definition innerContainsOperators :: "string \<Rightarrow> bool" where
  "innerContainsOperators valueStr =
     list_ex (\<lambda>c. c \<in> set ''+-*/%=><&|^~!?:'') (substring valueStr 1 (length valueStr - 1))"

text \<open>\<^verbatim>\<open>isSimpleLiteral\<close> of \<^verbatim>\<open>value-parser.ts\<close>.\<close>

definition isSimpleLiteral2 :: "host \<Rightarrow> string \<Rightarrow> bool" where
  "isSimpleLiteral2 h valueStr =
     (let v = trim valueStr in
      if isQuoted v then \<not> innerContainsOperators v
      else if (startsWith v ''['' \<and> endsWith v '']'') \<or> (startsWith v ''{'' \<and> endsWith v ''}'')
      then (case JSON_parse h v of Inr parsed \<Rightarrow> True | Inl msg \<Rightarrow> False)
      else if toLowerCase v \<in> set [''true'', ''false'', ''null''] then True
      else if numericPattern v then Number v \<noteq> None
      else False)"

text \<open>
  \<^verbatim>\<open>_resolveOperand\<close> of \<^verbatim>\<open>ucl-parser.ts\<close>. A quoted operand is returned as the text
  between its quotes; \<^verbatim>\<open>isVariableReference\<close> of \<^verbatim>\<open>reference-resolver.ts\<close> is the pattern
  alone.
\<close>

definition resolveOperand2 ::
  "(string \<Rightarrow> uclvalue result) \<Rightarrow> host \<Rightarrow> parser \<Rightarrow> string \<Rightarrow> uclvalue result" where
  "resolveOperand2 pv h this operandStr =
     (let s = trim operandStr in
      if s = [] then Some (Inr VNull)
      else if isQuoted s then Some (Inr (VStr (substring s 1 (length s - 1))))
      else (case envMatch s of
              Some envVar \<Rightarrow> Some (Inr (envLookup this envVar))
            | None \<Rightarrow>
                (if referencePattern s then Some (resolveReference this s)
                 else parseSimpleValue pv h s)))"

text \<open>The body of \<^verbatim>\<open>_parseValue\<close> of \<^verbatim>\<open>ucl-parser.ts\<close>, and the method itself.\<close>

definition parseValueBody2 ::
  "nat \<Rightarrow> (string \<Rightarrow> uclvalue result) \<Rightarrow> host \<Rightarrow> parser \<Rightarrow> string \<Rightarrow> uclvalue result" where
  "parseValueBody2 n pv h this valueStr0 =
     (let valueStr = trim valueStr0;
          parts = split_on CHR ''.'' valueStr;
          typeSuffix = last parts;
          baseValueStr = join ''.'' (butlast parts)
      in
      if valueStr = [] then Some (Inr VNull)
      else (case envMatch valueStr of
        Some envVar \<Rightarrow> Some (Inr (envLookup this envVar))
      | None \<Rightarrow>
          (if CHR ''.'' \<in> set valueStr \<and> \<not> isSimpleLiteral2 h valueStr \<and>
              toLowerCase typeSuffix \<in> set [''int'', ''float'', ''string'', ''bool'']
           then
             (case pv baseValueStr of
                None \<Rightarrow> None
              | Some (Inl err) \<Rightarrow> Some (Inl err)
              | Some (Inr baseValue) \<Rightarrow> Some (convertType h baseValue (toLowerCase typeSuffix)))
           else if containsOperators valueStr \<and> \<not> isSimpleLiteral2 h valueStr then
             evaluateExpression n (evaluateSimpleExpression (resolveOperand2 pv h this) h) h valueStr
           else if \<not> isSimpleLiteral2 h valueStr \<and> referencePattern valueStr then
             Some (resolveReference this valueStr)
           else parseSimpleValue pv h valueStr)))"

fun parseValue2 :: "nat \<Rightarrow> host \<Rightarrow> parser \<Rightarrow> string \<Rightarrow> uclvalue result" where
  "parseValue2 0 h this valueStr = None"
| "parseValue2 (Suc n) h this valueStr =
     parseValueBody2 n (\<lambda>v. parseValue2 n h this v) h this valueStr"

section \<open>The document assembler\<close>

text \<open>
  The loop of \<^verbatim>\<open>_splitKeyValue\<close>: cut the line at the first \<^verbatim>\<open>=\<close> outside quoted spans.
  \<open>seen\<close> is the text already read.
\<close>

fun splitKeyValueLoop ::
  "string \<Rightarrow> string \<Rightarrow> char option \<Rightarrow> char option \<Rightarrow> string \<Rightarrow> ucl_error + string \<times> string" where
  "splitKeyValueLoop line seen quoteChar prev [] =
     Inl (UCLSyntaxError, ''Invalid key-value syntax: '' @ line)"
| "splitKeyValueLoop line seen quoteChar prev (c # cs) =
     (if quoteChar = None \<and> (c = DQ \<or> c = SQ)
      then splitKeyValueLoop line (seen @ [c]) (Some c) (Some c) cs
      else if quoteChar = Some c \<and> prev \<noteq> Some BSL
      then splitKeyValueLoop line (seen @ [c]) None (Some c) cs
      else if quoteChar = None \<and> c = CHR ''=''
      then Inr (trim seen, trim cs)
      else splitKeyValueLoop line (seen @ [c]) quoteChar (Some c) cs)"

definition splitKeyValue :: "string \<Rightarrow> ucl_error + string \<times> string" where
  "splitKeyValue line = splitKeyValueLoop line [] None None line"

text \<open>\<^verbatim>\<open>_setNestedValue\<close>: the path is the current section followed by the key.\<close>

definition setNestedValue :: "parser \<Rightarrow> string \<Rightarrow> uclvalue \<Rightarrow> parser" where
  "setNestedValue this key v =
     this\<lparr>config := setNestedLoop (config this) (currentSection this @ [key]) v\<rparr>"

text \<open>
  A loop of \<^verbatim>\<open>_parseMultilineValue\<close>, for braces or for brackets: append the following
  non-blank lines while more are opened than closed. The result is the value text and the
  lines that remain.
\<close>

fun multilineLoop ::
  "char \<Rightarrow> char \<Rightarrow> string \<Rightarrow> int \<Rightarrow> string list \<Rightarrow> string \<times> string list" where
  "multilineLoop opn cls valueStr cnt [] = (valueStr, [])"
| "multilineLoop opn cls valueStr cnt (l # ls) =
     (if 0 < cnt then
        (if trim l \<noteq> []
         then multilineLoop opn cls (valueStr @ [LF] @ trim l)
                (cnt + int (count_list (trim l) opn) - int (count_list (trim l) cls)) ls
         else multilineLoop opn cls valueStr cnt ls)
      else (valueStr, l # ls))"

definition parseMultilineValue :: "string list \<Rightarrow> string \<Rightarrow> string \<times> string list" where
  "parseMultilineValue following initialValue =
     (let valueStr = trim initialValue in
      if startsWith valueStr ''{'' then
        multilineLoop CHR ''{'' CHR ''}'' valueStr
          (int (count_list valueStr CHR ''{'') - int (count_list valueStr CHR ''}'')) following
      else if startsWith valueStr ''['' then
        multilineLoop CHR ''['' CHR '']'' valueStr
          (int (count_list valueStr CHR ''['') - int (count_list valueStr CHR '']'')) following
      else (initialValue, following))"

text \<open>
  \<^verbatim>\<open>_parseKeyValue\<close> on the line \<open>l\<close> and the lines \<open>ls\<close> after it; the result is the
  parser after the assignment and the lines still to read. \<open>pv\<close> is \<^verbatim>\<open>this._parseValue\<close>
  on the parser as it stands.
\<close>

definition parseKeyValue ::
  "(parser \<Rightarrow> string \<Rightarrow> uclvalue result) \<Rightarrow> parser \<Rightarrow> string \<Rightarrow> string list
   \<Rightarrow> (parser \<times> string list) result" where
  "parseKeyValue pv this l ls =
     (let line = trim l in
      if CHR ''='' \<notin> set line then
        (if line \<noteq> [] \<and> \<not> startsWith line ''['' \<and> \<not> endsWith line '']'' \<and>
            line \<notin> set [''{'', ''}''] \<and>
            \<not> list_ex (\<lambda>c. c \<in> set (''[]{},'' @ [DQ, SQ])) line
         then Some (Inl (UCLSyntaxError, ''Invalid syntax: line without equals sign: '' @ line))
         else Some (Inr (this, ls)))
      else
        (case splitKeyValue line of
           Inl err \<Rightarrow> Some (Inl err)
         | Inr (key, valuePart) \<Rightarrow>
             (if startsWith (trim valuePart) ''{'' \<or> startsWith (trim valuePart) ''[''
              then
                (case pv this (fst (parseMultilineValue ls valuePart)) of
                   None \<Rightarrow> None
                 | Some (Inl err) \<Rightarrow> Some (Inl err)
                 | Some (Inr v) \<Rightarrow>
                     Some (Inr (setNestedValue this key v, snd (parseMultilineValue ls valuePart))))
              else
                (case pv this valuePart of
                   None \<Rightarrow> None
                 | Some (Inl err) \<Rightarrow> Some (Inl err)
                 | Some (Inr v) \<Rightarrow> Some (Inr (setNestedValue this key v, ls))))))"

text \<open>
  Whether a trimmed line is a section header, and the loop of \<^verbatim>\<open>_parseDefaultsSection\<close>
  over the lines after the \<^verbatim>\<open>[Defaults]\<close> header.
\<close>

definition isHeader :: "string \<Rightarrow> bool" where
  "isHeader line = (startsWith line ''['' \<and> endsWith line '']'')"

fun parseDefaultsSection ::
  "(parser \<Rightarrow> string \<Rightarrow> uclvalue result) \<Rightarrow> parser \<Rightarrow> string list \<Rightarrow> parser result" where
  "parseDefaultsSection pv this [] = Some (Inr this)"
| "parseDefaultsSection pv this (l # ls) =
     (if trim l = [] then parseDefaultsSection pv this ls
      else if isHeader (trim l) then
        Some (Inl (UCLSyntaxError, ''Defaults section must be at the end of the file''))
      else if CHR ''='' \<in> set (trim l) then
        (case splitKeyValue (trim l) of
           Inl err \<Rightarrow> Some (Inl err)
         | Inr (key, valuePart) \<Rightarrow>
             (case pv this valuePart of
                None \<Rightarrow> None
              | Some (Inl err) \<Rightarrow> Some (Inl err)
              | Some (Inr v) \<Rightarrow>
                  parseDefaultsSection pv (this\<lparr>defaults := obj_set (defaults this) key v\<rparr>) ls))
      else parseDefaultsSection pv this ls)"

text \<open>
  The loop of \<^verbatim>\<open>_parseLines\<close>. A key-value line may take the lines after it into its
  value, so the recursion is on the number of lines still to read.
\<close>

lemma multilineLoop_length:
  "length (snd (multilineLoop opn cls valueStr cnt ls)) \<le> length ls"
  by (induction opn cls valueStr cnt ls rule: multilineLoop.induct) auto

lemma parseKeyValue_length:
  "parseKeyValue pv this l ls = Some (Inr (this', rest)) \<Longrightarrow> length rest \<le> length ls"
  using multilineLoop_length
  by (auto simp: parseKeyValue_def parseMultilineValue_def Let_def
      split: if_splits sum.splits option.splits prod.splits)

function parseLines ::
  "(parser \<Rightarrow> string \<Rightarrow> uclvalue result) \<Rightarrow> parser \<Rightarrow> string list \<Rightarrow> parser result" where
  "parseLines pv this [] = Some (Inr this)"
| "parseLines pv this (l # ls) =
     (if trim l = [] then parseLines pv this ls
      else if isHeader (trim l) then
        (if toLowerCase (trim (substring (trim l) 1 (length (trim l) - 1))) = ''defaults''
         then parseDefaultsSection pv this ls
         else parseLines pv
                (this\<lparr>currentSection :=
                   split_on CHR ''.'' (trim (substring (trim l) 1 (length (trim l) - 1)))\<rparr>) ls)
      else
        (case parseKeyValue pv this l ls of
           None \<Rightarrow> None
         | Some (Inl err) \<Rightarrow> Some (Inl err)
         | Some (Inr (this', rest)) \<Rightarrow> parseLines pv this' rest))"
  by pat_completeness auto
termination
  by (relation "measure (\<lambda>(pv, this, ls). length ls)")
     (auto simp: less_Suc_eq_le dest: parseKeyValue_length)

text \<open>
  The pattern \<^verbatim>\<open>/^include\s+["']([^"']+)["']$/\<close> on a trimmed line; the result is the
  captured path.
\<close>

definition is_quote :: "char \<Rightarrow> bool" where
  "is_quote c = (c = DQ \<or> c = SQ)"

definition includeMatch :: "string \<Rightarrow> string option" where
  "includeMatch t =
     (let r = dropWhile is_ws (drop 7 t);
          path = takeWhile (\<lambda>c. \<not> is_quote c) (tl r);
          closing = dropWhile (\<lambda>c. \<not> is_quote c) (tl r)
      in if startsWith t ''include'' \<and> drop 7 t \<noteq> [] \<and> is_ws (hd (drop 7 t)) \<and>
            r \<noteq> [] \<and> is_quote (hd r) \<and> path \<noteq> [] \<and>
            length closing = 1
         then Some path else None)"

text \<open>
  \<^verbatim>\<open>_processIncludes\<close>. \<open>readFile\<close> gives the content of the file that an include path
  names under the base directory, or \<open>None\<close> when there is no such file. Files may include
  each other for ever; the first argument bounds the nesting.
\<close>

fun processIncludes ::
  "nat \<Rightarrow> (string \<Rightarrow> string option) \<Rightarrow> string list \<Rightarrow> string list result" where
  "processIncludes 0 readFile ls = None"
| "processIncludes (Suc n) readFile [] = Some (Inr [])"
| "processIncludes (Suc n) readFile (l # ls) =
     (case (if startsWith (trim l) ''include '' then
              (case includeMatch (trim l) of
                 Some includePath \<Rightarrow>
                   (case readFile includePath of
                      Some includeContent \<Rightarrow>
                        processIncludes n readFile (split_on LF (removeComments includeContent))
                    | None \<Rightarrow> Some (Inl (UCLError, ''Include file not found: '' @ includePath)))
               | None \<Rightarrow> Some (Inl (UCLSyntaxError, ''Invalid include syntax: '' @ l)))
            else Some (Inr [l])) of
        None \<Rightarrow> None
      | Some (Inl err) \<Rightarrow> Some (Inl err)
      | Some (Inr included) \<Rightarrow>
          (case processIncludes (Suc n) readFile ls of
             None \<Rightarrow> None
           | Some (Inl err) \<Rightarrow> Some (Inl err)
           | Some (Inr processed) \<Rightarrow> Some (Inr (included @ processed))))"

text \<open>
  The order in which \<^verbatim>\<open>for ... in\<close> enumerates the own keys of an object: the keys that
  are array indices in ascending order, then the other keys in insertion order.
\<close>

definition isArrayIndex :: "string \<Rightarrow> bool" where
  "isArrayIndex k =
     (k \<noteq> [] \<and> list_all is_digit k \<and> nat_string (digits_val 10 k) = k \<and>
      int (digits_val 10 k) < 2 ^ 32 - 1)"

definition forInOrder :: "uclobject \<Rightarrow> (string \<times> uclvalue) list" where
  "forInOrder obj =
     sort_key (\<lambda>kv. digits_val 10 (fst kv)) (filter (\<lambda>kv. isArrayIndex (fst kv)) obj)
       @ filter (\<lambda>kv. \<not> isArrayIndex (fst kv)) obj"

text \<open>
  \<^verbatim>\<open>parseString\<close> of the class \<^verbatim>\<open>UCLParser\<close> in \<^verbatim>\<open>parser.ts\<close>: reset the state, strip
  comments, expand includes, read the lines, apply the defaults, and return the document.
\<close>

definition UCLParser_parseString ::
  "nat \<Rightarrow> host \<Rightarrow> (string \<Rightarrow> string option) \<Rightarrow> parser \<Rightarrow> string \<Rightarrow> uclobject result" where
  "UCLParser_parseString n h readFile this0 content =
     (case processIncludes n readFile (split_on LF (removeComments content)) of
        None \<Rightarrow> None
      | Some (Inl err) \<Rightarrow> Some (Inl err)
      | Some (Inr ls) \<Rightarrow>
          (case parseLines (parseValue n h)
                  (this0\<lparr>config := [], currentSection := [], defaults := []\<rparr>) ls of
             None \<Rightarrow> None
           | Some (Inl err) \<Rightarrow> Some (Inl err)
           | Some (Inr this) \<Rightarrow>
               (case applyDefaults (config this) (forInOrder (defaults this)) of
                  Inl err \<Rightarrow> Some (Inl err)
                | Inr final \<Rightarrow> Some (Inr final))))"

text \<open>A parser with no environment variables, for closed examples.\<close>

definition example_parser :: parser where
  "example_parser =
     \<lparr>config = [], currentSection = [], defaults = [], envVars = (\<lambda>name. None),
      resolveComplexReference = (\<lambda>ref cfg sect. Inl (UCLReferenceError, ref))\<rparr>"

section \<open>Notions used to state the properties\<close>



section \<open>Worked examples used below\<close>



section \<open>Properties of nested access\<close>

lemma split_on_nonempty: "split_on sep s \<noteq> []"
  by (induction s) (auto split: list.splits)





section \<open>Properties of the defaults pass\<close>






section \<open>Properties of the type conversions\<close>

lemma floor_rat_numeral [simp]:
  "\<lfloor>numeral a / numeral b :: rat\<rfloor> = numeral a div numeral b"
  by (metis floor_divide_of_int_eq of_int_numeral)

lemma floor_rat_minus_numeral [simp]:
  "\<lfloor>- (numeral a / numeral b) :: rat\<rfloor> = - numeral a div numeral b"
  by (metis floor_divide_of_int_eq of_int_numeral of_int_minus minus_divide_left)





section \<open>Properties of comment stripping\<close>

lemma split_on_length: "length (split_on sep s) = Suc (count_list s sep)"
  by (induction s) (auto split: list.splits)

lemma split_on_no_sep: "sep \<notin> set s \<Longrightarrow> split_on sep s = [s]"
  by (induction s) auto

lemma split_on_append_sep:
  "sep \<notin> set x \<Longrightarrow> split_on sep (x @ sep # r) = x # split_on sep r"
  by (induction x) (auto split: list.splits)

lemma split_on_join:
  "ls \<noteq> [] \<Longrightarrow> \<forall>l \<in> set ls. sep \<notin> set l \<Longrightarrow> split_on sep (join [sep] ls) = ls"
proof (induction "[sep]" ls rule: join.induct)
  case 1
  then show ?case by simp
next
  case (2 x)
  then show ?case by (simp add: split_on_no_sep)
next
  case (3 x y ys)
  then show ?case by (simp add: split_on_append_sep)
qed

lemma split_on_parts_no_sep: "l \<in> set (split_on sep s) \<Longrightarrow> sep \<notin> set l"
  by (induction s arbitrary: l) (auto split: list.splits if_splits)

lemma stripLineComment_subset: "set (stripLineComment q p l) \<subseteq> set l"
  by (induction q p l rule: stripLineComment.induct) auto

lemma removeComments_lines:
  "split_on LF (removeComments s) =
     map (stripLineComment None None) (split_on LF (removeBlockComments s))"
  unfolding removeComments_def
  apply (rule split_on_join)
   apply (simp add: split_on_nonempty)
  using split_on_parts_no_sep stripLineComment_subset by fastforce

lemma until_close_append: "until_close cs = Some (body, rest) \<Longrightarrow> cs = body @ rest"
  by (induction cs arbitrary: body rest rule: until_close.induct)
     (auto split: if_splits option.splits)

lemma count_removeBlockComments:
  "count_list s c =
     count_list (removeBlockComments s) c + count_list (concat (blockComments s)) c"
proof (induction s rule: removeBlockComments.induct)
  case 1
  then show ?case by simp
next
  case (2 c)
  then show ?case by simp
next
  case (3 a b cs)
  show ?case
  proof (cases "a = CHR ''/'' \<and> b = CHR ''*''")
    case True
    note ab = this
    show ?thesis
    proof (cases "until_close cs")
      case None
      then show ?thesis using 3 ab by simp
    next
      case (Some p)
      obtain body rest where p: "p = (body, rest)" by (cases p)
      have "cs = body @ rest" using Some p until_close_append by simp
      then show ?thesis using 3(2)[OF ab Some[unfolded p]] ab Some p by simp
    qed
  next
    case False
    then show ?thesis using 3 by auto
  qed
qed

text \<open>
  Claim C3, as stated, fails: a block comment that spans two lines is removed together
  with its line break, so a two-line input becomes a one-line output.
\<close>

theorem removeComments_counterexample:
  "length (split_on LF (''/*'' @ [LF] @ ''*/'')) = 2 \<and>
   length (split_on LF (removeComments (''/*'' @ [LF] @ ''*/''))) = 1"
  by (simp add: removeComments_def)

text \<open>
  Claim C3, amended. The lines of the output are the lines of the input after block
  comments are removed, each cut at its line comment, so removing line comments keeps
  every line, blank ones included. Removing a block comment removes the line breaks inside
  it: the number of output lines plus the number of line breaks inside the removed block
  comments is the number of input lines. The line count is therefore retained exactly
  when no removed block comment spans a line break.
\<close>

theorem removeComments_line_count:
  "split_on LF (removeComments s) =
     map (stripLineComment None None) (split_on LF (removeBlockComments s)) \<and>
   length (split_on LF (removeComments s)) + count_list (concat (blockComments s)) LF =
     length (split_on LF s)"
proof -
  have "length (split_on LF (removeComments s)) = Suc (count_list (removeBlockComments s) LF)"
    by (simp add: removeComments_lines split_on_length)
  then show ?thesis
    using count_removeBlockComments [of s LF]
    by (simp add: removeComments_lines split_on_length)
qed

section \<open>Properties of reference resolution\<close>






section \<open>Evaluation on concrete inputs\<close>

text \<open>The defining equations that the simplifier unfolds to run the model on a text.\<close>

lemmas lexical_eval =
  trim_def is_ws_def is_digit_def is_upper_def is_lower_def lower_char_def toLowerCase_def
  startsWith_def endsWith_def isQuoted_def substring_def containsOperators_def
  numericPattern_def envMatch_def ident_start_def ident_char_def referencePattern_def
  escapeSequences_def innerContainsOperators_def isHeader_def

lemmas number_eval =
  Number_def non_decimal_def unsigned_decimal_def exponent_part_def finite_double_def
  double_overflow_def digits_val_def digit_val_def is_digit_of_def pow10_def
  number_String_def int_string_def nat_string.simps

lemmas expression_eval =
  isSimpleLiteral_def isVariableReference_def parseSimpleValue_def tokenizeExpression_def
  isOperator_def toNumber_def evaluateSimpleExpression_def resolveOperand_def
  parseValueBody_def addSub_def String_opt_def is_string_def lastIndexOf_def
  resolveReference_def convertType_def cannot_convert_def js_rem_def
  truncate_toward_zero_def isSimpleLiteral2_def resolveOperand2_def parseValueBody2_def
  resolveSimpleReference_def relativeFallback_def

section \<open>More fuel never changes a result\<close>

text \<open>
  Every function that takes a callback returns the same once its callback returns more
  often, so a result reached within some bound is the result within every larger bound.
\<close>

lemma parseElements_more:
  assumes "\<And>x r. pv x = Some r \<Longrightarrow> pv' x = Some r"
  shows "parseElements pv es = Some r \<Longrightarrow> parseElements pv' es = Some r"
proof (induction es arbitrary: r)
  case Nil
  then show ?case by simp
next
  case (Cons e es)
  from Cons.prems obtain q where q: "pv e = Some q"
    by (cases "pv e") auto
  then have q': "pv' e = Some q" by (rule assms)
  show ?case
  proof (cases q)
    case (Inl err)
    then show ?thesis using Cons.prems q q' by simp
  next
    case (Inr v)
    from Cons.prems q Inr obtain t where t: "parseElements pv es = Some t"
      by (cases "parseElements pv es") auto
    then have "parseElements pv' es = Some t" by (rule Cons.IH)
    then show ?thesis using Cons.prems q q' Inr t by simp
  qed
qed

lemma parseArray_more:
  assumes "\<And>x r. pv x = Some r \<Longrightarrow> pv' x = Some r"
  shows "parseArray pv s = Some r \<Longrightarrow> parseArray pv' s = Some r"
proof -
  assume a: "parseArray pv s = Some r"
  define content where "content = trim (substring s 1 (length s - 1))"
  define elems where "elems = filter (\<lambda>e. e \<noteq> [])
     (map trim (splitArrayLoop [] 0 0 None None (collapseNewlines content)))"
  show ?thesis
  proof (cases "content = []")
    case True
    then show ?thesis using a by (simp add: parseArray_def content_def)
  next
    case False
    with a obtain q where q: "parseElements pv elems = Some q"
      by (cases "parseElements pv elems")
         (auto simp: parseArray_def content_def elems_def Let_def)
    have "parseElements pv' elems = Some q"
      using assms q by (rule parseElements_more)
    then show ?thesis
      using a q False by (simp add: parseArray_def content_def elems_def Let_def)
  qed
qed

lemma parseSimpleValue_more:
  assumes "\<And>x r. pv x = Some r \<Longrightarrow> pv' x = Some r"
  shows "parseSimpleValue pv h s = Some r \<Longrightarrow> parseSimpleValue pv' h s = Some r"
proof -
  assume a: "parseSimpleValue pv h s = Some r"
  have arr: "parseArray pv (trim s) = Some r \<Longrightarrow> parseArray pv' (trim s) = Some r"
    using assms by (rule parseArray_more)
  show ?thesis
    using a arr unfolding parseSimpleValue_def Let_def
    by (cases "toLowerCase (trim s) = ''null''";
        cases "toLowerCase (trim s) \<in> set [''true'', ''false'']";
        cases "isQuoted (trim s)";
        cases "startsWith (trim s) ''['' \<and> endsWith (trim s) '']''";
        auto)
qed

lemma resolveOperand_more:
  assumes "\<And>x r. pv x = Some r \<Longrightarrow> pv' x = Some r"
  shows "resolveOperand pv h this s = Some r \<Longrightarrow> resolveOperand pv' h this s = Some r"
proof -
  assume a: "resolveOperand pv h this s = Some r"
  have sv: "parseSimpleValue pv h (trim s) = Some r \<Longrightarrow>
            parseSimpleValue pv' h (trim s) = Some r"
    using assms by (rule parseSimpleValue_more)
  show ?thesis
    using a sv unfolding resolveOperand_def Let_def
    by (cases "trim s = []"; cases "isQuoted (trim s)"; cases "envMatch (trim s)";
        cases "isVariableReference h (trim s)"; simp)
qed

lemma resolveOperand2_more:
  assumes "\<And>x r. pv x = Some r \<Longrightarrow> pv' x = Some r"
  shows "resolveOperand2 pv h this s = Some r \<Longrightarrow> resolveOperand2 pv' h this s = Some r"
proof -
  assume a: "resolveOperand2 pv h this s = Some r"
  have sv: "parseSimpleValue pv h (trim s) = Some r \<Longrightarrow>
            parseSimpleValue pv' h (trim s) = Some r"
    using assms by (rule parseSimpleValue_more)
  show ?thesis
    using a sv unfolding resolveOperand2_def Let_def
    by (cases "trim s = []"; cases "isQuoted (trim s)"; cases "envMatch (trim s)";
        cases "referencePattern (trim s)"; simp)
qed

lemma resolveTokens_more:
  assumes "\<And>x r. ro x = Some r \<Longrightarrow> ro' x = Some r"
  shows "resolveTokens ro ts = Some r \<Longrightarrow> resolveTokens ro' ts = Some r"
proof (induction ts arbitrary: r)
  case Nil
  then show ?case by simp
next
  case (Cons t ts)
  define f :: "(string \<Rightarrow> uclvalue result) \<Rightarrow> uclvalue result"
    where "f = (\<lambda>g. if isOperator t then Some (Inr (VStr t)) else g t)"
  from Cons.prems obtain q where q: "f ro = Some q"
    by (cases "f ro") (auto simp: f_def)
  then have q': "f ro' = Some q"
    by (auto simp: f_def split: if_splits dest: assms)
  show ?case
  proof (cases q)
    case (Inl err)
    then show ?thesis using Cons.prems q q' by (simp add: f_def)
  next
    case (Inr v)
    from Cons.prems q Inr obtain u where u: "resolveTokens ro ts = Some u"
      by (cases "resolveTokens ro ts") (auto simp: f_def)
    then have "resolveTokens ro' ts = Some u" by (rule Cons.IH)
    then show ?thesis using Cons.prems q q' Inr u by (simp add: f_def)
  qed
qed

lemma evaluateSimpleExpression_more:
  assumes "\<And>x r. ro x = Some r \<Longrightarrow> ro' x = Some r"
  shows "evaluateSimpleExpression ro h e = Some r \<Longrightarrow>
         evaluateSimpleExpression ro' h e = Some r"
proof -
  assume a: "evaluateSimpleExpression ro h e = Some r"
  then obtain q where q: "resolveTokens ro (tokenizeExpression e) = Some q"
    by (cases "resolveTokens ro (tokenizeExpression e)")
       (auto simp: evaluateSimpleExpression_def)
  have "resolveTokens ro' (tokenizeExpression e) = Some q"
    using assms q by (rule resolveTokens_more)
  then show ?thesis using a q by (simp add: evaluateSimpleExpression_def)
qed

lemma evaluateExpression_more:
  assumes "\<And>x r. es x = Some r \<Longrightarrow> es' x = Some r"
  shows "evaluateExpression n es h e = Some r \<Longrightarrow> n \<le> m \<Longrightarrow>
         evaluateExpression m es' h e = Some r"
proof (induction n arbitrary: m e)
  case 0
  then show ?case by simp
next
  case (Suc n)
  then obtain m' where m: "m = Suc m'" and le: "n \<le> m'"
    by (cases m) auto
  show ?case
  proof (cases "CHR ''('' \<in> set e")
    case False
    then show ?thesis using Suc.prems(1) m by (auto dest: assms)
  next
    case True
    note paren = this
    define start where "start = lastIndexOf e CHR ''(''"
    show ?thesis
    proof (cases "findClose 0 start (drop start e)")
      case None
      then show ?thesis using Suc.prems(1) m paren by (simp add: start_def)
    next
      case (Some endIdx)
      with Suc.prems(1) paren obtain q where q: "es (substring e (start + 1) endIdx) = Some q"
        by (cases "es (substring e (start + 1) endIdx)") (auto simp: start_def)
      then have q': "es' (substring e (start + 1) endIdx) = Some q" by (rule assms)
      show ?thesis
      proof (cases q)
        case (Inl err)
        then show ?thesis using Suc.prems(1) m paren Some q q' by (auto simp: start_def)
      next
        case (Inr res)
        have "evaluateExpression n es h
                (substring e 0 start @ String h res @ drop (endIdx + 1) e) = Some r"
          using Suc.prems(1) paren Some q Inr by (simp add: start_def)
        then have "evaluateExpression m' es' h
                (substring e 0 start @ String h res @ drop (endIdx + 1) e) = Some r"
          using le by (rule Suc.IH)
        then show ?thesis using m paren Some q' Inr by (simp add: start_def)
      qed
    qed
  qed
qed

lemma convert_base_more:
  assumes "\<And>x r. pv x = Some r \<Longrightarrow> pv' x = Some r"
  shows "(case pv b of
            None \<Rightarrow> None
          | Some (Inl err) \<Rightarrow> Some (Inl err)
          | Some (Inr baseValue) \<Rightarrow> Some (f baseValue)) = Some r \<Longrightarrow>
         (case pv' b of
            None \<Rightarrow> None
          | Some (Inl err) \<Rightarrow> Some (Inl err)
          | Some (Inr baseValue) \<Rightarrow> Some (f baseValue)) = Some r"
  by (cases "pv b") (auto dest: assms)

lemma parseValueBody_more:
  assumes "\<And>x r. pv x = Some r \<Longrightarrow> pv' x = Some r" and "n \<le> m"
  shows "parseValueBody n pv h this s = Some r \<Longrightarrow> parseValueBody m pv' h this s = Some r"
proof -
  assume a: "parseValueBody n pv h this s = Some r"
  define v where "v = trim s"
  define b where "b = join ''.'' (butlast (split_on CHR ''.'' v))"
  define c1 where "c1 \<longleftrightarrow> CHR ''.'' \<in> set v \<and> \<not> isSimpleLiteral h v \<and>
     toLowerCase (last (split_on CHR ''.'' v)) \<in> set [''int'', ''float'', ''string'', ''bool'']"
  define c2 where "c2 \<longleftrightarrow> containsOperators v \<and> \<not> isSimpleLiteral h v"
  define c3 where "c3 \<longleftrightarrow> \<not> isSimpleLiteral h v \<and> isVariableReference h v"
  have body: "parseValueBody k p h this s =
     (if v = [] then Some (Inr VNull)
      else (case envMatch v of
        Some envVar \<Rightarrow> Some (Inr (envLookup this envVar))
      | None \<Rightarrow>
          (if c1 then
             (case p b of
                None \<Rightarrow> None
              | Some (Inl err) \<Rightarrow> Some (Inl err)
              | Some (Inr baseValue) \<Rightarrow>
                  Some (convertType h baseValue (toLowerCase (last (split_on CHR ''.'' v)))))
           else if c2 then
             evaluateExpression k (evaluateSimpleExpression (resolveOperand p h this) h) h v
           else if c3 then Some (resolveReference this v)
           else parseSimpleValue p h v)))" for k p
    unfolding parseValueBody_def Let_def v_def b_def c1_def c2_def c3_def by (rule refl)
  have ro: "resolveOperand pv h this x = Some y \<Longrightarrow> resolveOperand pv' h this x = Some y"
    for x y using assms(1) by (rule resolveOperand_more)
  have es: "evaluateSimpleExpression (resolveOperand pv h this) h x = Some y \<Longrightarrow>
            evaluateSimpleExpression (resolveOperand pv' h this) h x = Some y" for x y
    using ro by (rule evaluateSimpleExpression_more)
  have ee: "evaluateExpression n (evaluateSimpleExpression (resolveOperand pv h this) h) h v
              = Some r \<Longrightarrow>
            evaluateExpression m (evaluateSimpleExpression (resolveOperand pv' h this) h) h v
              = Some r"
    using es _ assms(2) by (rule evaluateExpression_more)
  have sv: "parseSimpleValue pv h v = Some r \<Longrightarrow> parseSimpleValue pv' h v = Some r"
    using assms(1) by (rule parseSimpleValue_more)
  note cv = convert_base_more[where pv = pv and pv' = pv' and b = b and r = r, OF assms(1)]
  show ?thesis
  proof (cases "v = []")
    case True
    then show ?thesis using a by (simp add: body)
  next
    case ne: False
    show ?thesis
    proof (cases "envMatch v")
      case (Some envVar)
      then show ?thesis using a ne by (simp add: body)
    next
      case None
      consider c1 | "\<not> c1" c2 | "\<not> c1" "\<not> c2" c3 | "\<not> c1" "\<not> c2" "\<not> c3"
        by blast
      then show ?thesis
      proof cases
        case 1
        then show ?thesis using a ne None cv by (simp add: body)
      next
        case 2
        then show ?thesis using a ne None ee by (simp add: body)
      next
        case 3
        then show ?thesis using a ne None by (simp add: body)
      next
        case 4
        then show ?thesis using a ne None sv by (simp add: body)
      qed
    qed
  qed
qed

lemma parseValue_more:
  "parseValue n h this s = Some r \<Longrightarrow> n \<le> m \<Longrightarrow> parseValue m h this s = Some r"
proof (induction n arbitrary: m s r)
  case 0
  then show ?case by simp
next
  case (Suc n)
  then obtain m' where m: "m = Suc m'" and le: "n \<le> m'"
    by (cases m) auto
  have "parseValueBody n (\<lambda>v. parseValue n h this v) h this s = Some r"
    using Suc.prems(1) by simp
  then have "parseValueBody m' (\<lambda>v. parseValue m' h this v) h this s = Some r"
    using Suc.IH[OF _ le] le by (rule parseValueBody_more[rotated 2])
  then show ?case by (simp add: m)
qed

lemma parseValueBody2_more:
  assumes "\<And>x r. pv x = Some r \<Longrightarrow> pv' x = Some r" and "n \<le> m"
  shows "parseValueBody2 n pv h this s = Some r \<Longrightarrow> parseValueBody2 m pv' h this s = Some r"
proof -
  assume a: "parseValueBody2 n pv h this s = Some r"
  define v where "v = trim s"
  define b where "b = join ''.'' (butlast (split_on CHR ''.'' v))"
  define c1 where "c1 \<longleftrightarrow> CHR ''.'' \<in> set v \<and> \<not> isSimpleLiteral2 h v \<and>
     toLowerCase (last (split_on CHR ''.'' v)) \<in> set [''int'', ''float'', ''string'', ''bool'']"
  define c2 where "c2 \<longleftrightarrow> containsOperators v \<and> \<not> isSimpleLiteral2 h v"
  define c3 where "c3 \<longleftrightarrow> \<not> isSimpleLiteral2 h v \<and> referencePattern v"
  have body: "parseValueBody2 k p h this s =
     (if v = [] then Some (Inr VNull)
      else (case envMatch v of
        Some envVar \<Rightarrow> Some (Inr (envLookup this envVar))
      | None \<Rightarrow>
          (if c1 then
             (case p b of
                None \<Rightarrow> None
              | Some (Inl err) \<Rightarrow> Some (Inl err)
              | Some (Inr baseValue) \<Rightarrow>
                  Some (convertType h baseValue (toLowerCase (last (split_on CHR ''.'' v)))))
           else if c2 then
             evaluateExpression k (evaluateSimpleExpression (resolveOperand2 p h this) h) h v
           else if c3 then Some (resolveReference this v)
           else parseSimpleValue p h v)))" for k p
    unfolding parseValueBody2_def Let_def v_def b_def c1_def c2_def c3_def by (rule refl)
  have ro: "resolveOperand2 pv h this x = Some y \<Longrightarrow> resolveOperand2 pv' h this x = Some y"
    for x y using assms(1) by (rule resolveOperand2_more)
  have es: "evaluateSimpleExpression (resolveOperand2 pv h this) h x = Some y \<Longrightarrow>
            evaluateSimpleExpression (resolveOperand2 pv' h this) h x = Some y" for x y
    using ro by (rule evaluateSimpleExpression_more)
  have ee: "evaluateExpression n (evaluateSimpleExpression (resolveOperand2 pv h this) h) h v
              = Some r \<Longrightarrow>
            evaluateExpression m (evaluateSimpleExpression (resolveOperand2 pv' h this) h) h v
              = Some r"
    using es _ assms(2) by (rule evaluateExpression_more)
  have sv: "parseSimpleValue pv h v = Some r \<Longrightarrow> parseSimpleValue pv' h v = Some r"
    using assms(1) by (rule parseSimpleValue_more)
  note cv = convert_base_more[where pv = pv and pv' = pv' and b = b and r = r, OF assms(1)]
  show ?thesis
  proof (cases "v = []")
    case True
    then show ?thesis using a by (simp add: body)
  next
    case ne: False
    show ?thesis
    proof (cases "envMatch v")
      case (Some envVar)
      then show ?thesis using a ne by (simp add: body)
    next
      case None
      consider c1 | "\<not> c1" c2 | "\<not> c1" "\<not> c2" c3 | "\<not> c1" "\<not> c2" "\<not> c3"
        by blast
      then show ?thesis
      proof cases
        case 1
        then show ?thesis using a ne None cv by (simp add: body)
      next
        case 2
        then show ?thesis using a ne None ee by (simp add: body)
      next
        case 3
        then show ?thesis using a ne None by (simp add: body)
      next
        case 4
        then show ?thesis using a ne None sv by (simp add: body)
      qed
    qed
  qed
qed

lemma parseValue2_more:
  "parseValue2 n h this s = Some r \<Longrightarrow> n \<le> m \<Longrightarrow> parseValue2 m h this s = Some r"
proof (induction n arbitrary: m s r)
  case 0
  then show ?case by simp
next
  case (Suc n)
  then obtain m' where m: "m = Suc m'" and le: "n \<le> m'"
    by (cases m) auto
  have "parseValueBody2 n (\<lambda>v. parseValue2 n h this v) h this s = Some r"
    using Suc.prems(1) by simp
  then have "parseValueBody2 m' (\<lambda>v. parseValue2 m' h this v) h this s = Some r"
    using Suc.IH[OF _ le] le by (rule parseValueBody2_more[rotated 2])
  then show ?case by (simp add: m)
qed

section \<open>Properties of the multiplicative pass\<close>









section \<open>Properties of the additive pass\<close>








section \<open>Properties of the defaults block\<close>

lemma parseDefaultsSection_append:
  "parseDefaultsSection pv this (xs @ ys) =
     (case parseDefaultsSection pv this xs of
        Some (Inr this') \<Rightarrow> parseDefaultsSection pv this' ys
      | other \<Rightarrow> other)"
  by (induction pv this xs rule: parseDefaultsSection.induct)
     (auto split: option.splits sum.splits prod.splits)

lemma isHeader_nonempty: "isHeader s \<Longrightarrow> s \<noteq> []"
  by (auto simp: isHeader_def startsWith_def)

text \<open>
  Claim C8. Let \<open>hdr\<close> be a \<^verbatim>\<open>[Defaults]\<close> header (in any letter case) that
  \<^verbatim>\<open>_parseLines\<close> reaches, and let the lines \<open>blockBefore\<close> after it be read without an
  error. If the next line \<open>l\<close> is a section header, that is, its trimmed text starts with
  \<^verbatim>\<open>[\<close> and ends with \<^verbatim>\<open>]\<close>, then reading the defaults block raises the Syntax error
  \<^verbatim>\<open>Defaults section must be at the end of the file\<close>, whatever follows, and so does
  \<^verbatim>\<open>_parseLines\<close>.
\<close>

theorem defaults_block_is_last:
  assumes "isHeader (trim hdr)"
    and "toLowerCase (trim (substring (trim hdr) 1 (length (trim hdr) - 1))) = ''defaults''"
    and "parseDefaultsSection pv this blockBefore = Some (Inr this')"
    and "isHeader (trim l)"
  shows "parseDefaultsSection pv this (blockBefore @ l # blockAfter) =
           Some (Inl (UCLSyntaxError, ''Defaults section must be at the end of the file'')) \<and>
         parseLines pv this (hdr # blockBefore @ l # blockAfter) =
           Some (Inl (UCLSyntaxError, ''Defaults section must be at the end of the file''))"
  using assms isHeader_nonempty[of "trim l"] isHeader_nonempty[of "trim hdr"]
  by (simp add: parseDefaultsSection_append)

lemmas assembler_eval =
  splitKeyValue_def parseKeyValue_def parseMultilineValue_def setNestedValue_def
  UCLParser_parseString_def forInOrder_def isArrayIndex_def includeMatch_def is_quote_def
  removeComments_def applyDefault_def getNestedValue_def setNestedValueByPath_def

text \<open>
  The theorem on the repository's example of a misplaced defaults block: the entry
  \<^verbatim>\<open>a = 1\<close> is read, the header \<^verbatim>\<open>[Section]\<close> after it raises the Syntax error, and so
  does the parse of the whole text.
\<close>

theorem defaults_block_is_last_witness:
  "isHeader (trim ''[Defaults]'') \<and>
   toLowerCase (trim (substring (trim ''[Defaults]'') 1 (length (trim ''[Defaults]'') - 1)))
     = ''defaults'' \<and>
   parseDefaultsSection (parseValue 2 example_host) example_parser [''a = 1''] =
     Some (Inr (example_parser\<lparr>defaults := [(''a'', VNum 1)]\<rparr>)) \<and>
   isHeader (trim ''[Section]'') \<and>
   parseLines (parseValue 2 example_host) example_parser
       [''[Defaults]'', ''a = 1'', ''[Section]'', ''b = 2''] =
     Some (Inl (UCLSyntaxError, ''Defaults section must be at the end of the file'')) \<and>
   UCLParser_parseString 2 example_host (\<lambda>p. None) example_parser
       (''[Defaults]'' @ [LF] @ ''a = 1'' @ [LF] @ ''[Section]'' @ [LF] @ ''b = 2'') =
     Some (Inl (UCLSyntaxError, ''Defaults section must be at the end of the file''))"
proof -
  have a: "isHeader (trim ''[Defaults]'')"
    by (simp add: lexical_eval)
  have b: "toLowerCase (trim (substring (trim ''[Defaults]'') 1
              (length (trim ''[Defaults]'') - 1))) = ''defaults''"
    by (simp add: lexical_eval)
  have c: "parseDefaultsSection (parseValue 2 example_host) example_parser [''a = 1''] =
     Some (Inr (example_parser\<lparr>defaults := [(''a'', VNum 1)]\<rparr>))"
    by (simp add: eval_nat_numeral lexical_eval number_eval expression_eval assembler_eval
        example_parser_def)
  have d: "isHeader (trim ''[Section]'')"
    by (simp add: lexical_eval)
  have e: "UCLParser_parseString 2 example_host (\<lambda>p. None) example_parser
       (''[Defaults]'' @ [LF] @ ''a = 1'' @ [LF] @ ''[Section]'' @ [LF] @ ''b = 2'') =
     Some (Inl (UCLSyntaxError, ''Defaults section must be at the end of the file''))"
    by (simp add: eval_nat_numeral lexical_eval number_eval expression_eval assembler_eval
        example_parser_def)
  show ?thesis
    using a b c d e defaults_block_is_last[OF a b c d, of "[''b = 2'']"] by simp
qed

section \<open>Properties of parenthesis resolution\<close>

text \<open>
  Claim C6 holds for the order of the passes and for its example, but not for mismatched
  parentheses: an opening parenthesis without a closing one raises the Syntax error, while
  a closing parenthesis without an opening one is ignored. The expression \<^verbatim>\<open>5 + 3)\<close>
  evaluates to 8; \<^verbatim>\<open>(10 + 5\<close> raises the Syntax error; and
  \<^verbatim>\<open>(5 + 3) * 2 / (10 - 6) % 3\<close> evaluates to 1. The first two results are reached
  under every bound of at least 2 on the nesting of \<^verbatim>\<open>_parseValue\<close> and the rounds of the
  parenthesis loop, the third under every bound of at least 4.
\<close>

theorem unmatched_closing_parenthesis:
  "parseValue (2 + j) h this ''5 + 3)'' = Some (Inr (VNum 8)) \<and>
   parseValue (2 + j) h this ''(10 + 5'' =
     Some (Inl (UCLSyntaxError, ''Mismatched parentheses in expression: (10 + 5'')) \<and>
   parseValue (4 + j) h this ''(5 + 3) * 2 / (10 - 6) % 3'' = Some (Inr (VNum 1))"
proof -
  have "parseValue 2 h this ''5 + 3)'' = Some (Inr (VNum 8))"
    by (simp add: eval_nat_numeral lexical_eval number_eval expression_eval)
  then have "parseValue (2 + j) h this ''5 + 3)'' = Some (Inr (VNum 8))"
    by (rule parseValue_more) simp
  moreover have "parseValue 2 h this ''(10 + 5'' =
     Some (Inl (UCLSyntaxError, ''Mismatched parentheses in expression: (10 + 5''))"
    by (simp add: eval_nat_numeral lexical_eval number_eval expression_eval)
  then have "parseValue (2 + j) h this ''(10 + 5'' =
     Some (Inl (UCLSyntaxError, ''Mismatched parentheses in expression: (10 + 5''))"
    by (rule parseValue_more) simp
  moreover have "parseValue 4 h this ''(5 + 3) * 2 / (10 - 6) % 3'' = Some (Inr (VNum 1))"
    by (simp add: eval_nat_numeral lexical_eval number_eval expression_eval)
  then have "parseValue (4 + j) h this ''(5 + 3) * 2 / (10 - 6) % 3'' = Some (Inr (VNum 1))"
    by (rule parseValue_more) simp
  ultimately show ?thesis by blast
qed

section \<open>Properties of the boolean conversion\<close>


section \<open>The two implementations compared\<close>

text \<open>
  Claim C10 fails on the code. For the quoted operand \<^verbatim>\<open>"a\n"\<close> (a backslash and the
  letter n between the quotes), \<^verbatim>\<open>_resolveOperand\<close> of \<^verbatim>\<open>parser.ts\<close> returns the letter a
  followed by a line feed, and \<^verbatim>\<open>_resolveOperand\<close> of \<^verbatim>\<open>ucl-parser.ts\<close> returns the three
  characters between the quotes as they are; so the value text \<^verbatim>\<open>"a\n" + "b"\<close> parses to
  two different strings. For the value text \<^verbatim>\<open>null + 1\<close> the first implementation returns
  1 and the second raises a Reference error, since its \<^verbatim>\<open>isVariableReference\<close> takes
  \<^verbatim>\<open>null\<close> for a name. Each of these results is reached under every bound of at least 2 on
  the nesting of \<^verbatim>\<open>_parseValue\<close>.
\<close>

theorem implementations_differ:
  "resolveOperand pv h this ([DQ] @ ''a'' @ [BSL] @ ''n'' @ [DQ]) =
     Some (Inr (VStr (''a'' @ [LF]))) \<and>
   resolveOperand2 pv h this ([DQ] @ ''a'' @ [BSL] @ ''n'' @ [DQ]) =
     Some (Inr (VStr (''a'' @ [BSL] @ ''n''))) \<and>
   parseValue (2 + j) h this ([DQ] @ ''a'' @ [BSL] @ ''n'' @ [DQ] @ '' + '' @ [DQ] @ ''b'' @ [DQ]) =
     Some (Inr (VStr (''a'' @ [LF] @ ''b''))) \<and>
   parseValue2 (2 + j) h this ([DQ] @ ''a'' @ [BSL] @ ''n'' @ [DQ] @ '' + '' @ [DQ] @ ''b'' @ [DQ]) =
     Some (Inr (VStr (''a'' @ [BSL] @ ''nb''))) \<and>
   parseValue (2 + j) h (this\<lparr>config := [], currentSection := []\<rparr>) ''null + 1'' =
     Some (Inr (VNum 1)) \<and>
   parseValue2 (2 + j) h (this\<lparr>config := [], currentSection := []\<rparr>) ''null + 1'' =
     Some (Inl (UCLReferenceError, ''Cannot resolve reference: null''))"
proof -
  have "parseValue 2 h this
          ([DQ] @ ''a'' @ [BSL] @ ''n'' @ [DQ] @ '' + '' @ [DQ] @ ''b'' @ [DQ]) =
     Some (Inr (VStr (''a'' @ [LF] @ ''b'')))"
    by (simp add: eval_nat_numeral lexical_eval number_eval expression_eval)
  then have "parseValue (2 + j) h this
          ([DQ] @ ''a'' @ [BSL] @ ''n'' @ [DQ] @ '' + '' @ [DQ] @ ''b'' @ [DQ]) =
     Some (Inr (VStr (''a'' @ [LF] @ ''b'')))"
    by (rule parseValue_more) simp
  moreover have "parseValue2 2 h this
          ([DQ] @ ''a'' @ [BSL] @ ''n'' @ [DQ] @ '' + '' @ [DQ] @ ''b'' @ [DQ]) =
     Some (Inr (VStr (''a'' @ [BSL] @ ''nb'')))"
    by (simp add: eval_nat_numeral lexical_eval number_eval expression_eval)
  then have "parseValue2 (2 + j) h this
          ([DQ] @ ''a'' @ [BSL] @ ''n'' @ [DQ] @ '' + '' @ [DQ] @ ''b'' @ [DQ]) =
     Some (Inr (VStr (''a'' @ [BSL] @ ''nb'')))"
    by (rule parseValue2_more) simp
  moreover have "parseValue 2 h (this\<lparr>config := [], currentSection := []\<rparr>) ''null + 1'' =
     Some (Inr (VNum 1))"
    by (simp add: eval_nat_numeral lexical_eval number_eval expression_eval)
  then have "parseValue (2 + j) h (this\<lparr>config := [], currentSection := []\<rparr>) ''null + 1'' =
     Some (Inr (VNum 1))"
    by (rule parseValue_more) simp
  moreover have "parseValue2 2 h (this\<lparr>config := [], currentSection := []\<rparr>) ''null + 1'' =
     Some (Inl (UCLReferenceError, ''Cannot resolve reference: null''))"
    by (simp add: eval_nat_numeral lexical_eval number_eval expression_eval)
  then have "parseValue2 (2 + j) h (this\<lparr>config := [], currentSection := []\<rparr>) ''null + 1'' =
     Some (Inl (UCLReferenceError, ''Cannot resolve reference: null''))"
    by (rule parseValue2_more) simp
  moreover have "resolveOperand pv h this ([DQ] @ ''a'' @ [BSL] @ ''n'' @ [DQ]) =
     Some (Inr (VStr (''a'' @ [LF])))"
    by (simp add: resolveOperand_def lexical_eval)
  moreover have "resolveOperand2 pv h this ([DQ] @ ''a'' @ [BSL] @ ''n'' @ [DQ]) =
     Some (Inr (VStr (''a'' @ [BSL] @ ''n'')))"
    by (simp add: resolveOperand2_def lexical_eval)
  ultimately show ?thesis
    by blast
qed

end
